theory Spec2Isabelle
  imports Complex_Main
begin

section \<open>Python values, errors and the projection library\<close>

text \<open>
  The functions of the repository are dynamically typed and dispatch on the run-time type
  of their arguments with \<open>isinstance\<close>. An argument is therefore a tagged value.
  \<open>PInt\<close> is a Python \<open>int\<close>, \<open>PStr\<close> a \<open>str\<close>, \<open>PCRS\<close> a
  \<open>pyproj.crs.CRS\<close> object, \<open>PNone\<close> is \<open>None\<close>, and \<open>POther\<close> stands for
  an object of any other type (a float, a list, ...), told apart by a tag.

  A \<open>char\<close> is read as the Unicode code point of the same number, so a \<open>string\<close> here
  is a Python \<open>str\<close> over the code points U+0000 to U+00FF.
\<close>

datatype 'crs pyval =
    PNone
  | PInt int
  | PStr string
  | PCRS 'crs
  | POther nat

text \<open>
  An exception is a value. \<open>ValueError\<close> and \<open>Exception\<close> carry the message the source
  raises them with; \<open>CRSError\<close> is what \<open>pyproj\<close> raises for a code or a text it does
  not accept; the others are raised by Python, pandas and geopandas.
\<close>

datatype error =
    ValueError string
  | Exception string
  | CRSError
  | AttributeError
  | KeyError
  | TypeError
  | EOFError
  | FileNotFoundError
  | ParserError

text \<open>
  The projection library is not part of the repository. It is a parameter: the two
  constructors \<open>pyproj.crs.CRS.from_epsg\<close> and \<open>pyproj.crs.CRS.from_wkt\<close>, which return
  a CRS object or raise \<open>CRSError\<close> (\<open>None\<close> here), and the coordinate transformation
  behind \<open>GeoDataFrame.to_crs\<close>, from a source CRS to a target CRS.
\<close>

datatype point = Point real real "real option"

record 'crs projlib =
  from_epsg :: "int \<Rightarrow> 'crs option"
  from_wkt :: "string \<Rightarrow> 'crs option"
  transform :: "'crs \<Rightarrow> 'crs \<Rightarrow> point \<Rightarrow> point"

definition lib_call :: "'crs option \<Rightarrow> error + 'crs option" where
  "lib_call r = (case r of None \<Rightarrow> Inl CRSError | Some c \<Rightarrow> Inr (Some c))"

subsection \<open>\<open>str.isnumeric\<close> and \<open>int\<close> of a numeric string\<close>

text \<open>
  \<open>str.isnumeric()\<close> is true of a non-empty string all of whose characters have a Unicode
  numeric value. Below U+0100 these are the decimal digits \<open>0\<close> to \<open>9\<close>, the superscripts
  U+00B2, U+00B3, U+00B9 and the fractions U+00BC, U+00BD, U+00BE.
\<close>

definition decimal_char :: "char \<Rightarrow> bool" where
  "decimal_char c \<longleftrightarrow> 48 \<le> (of_char c :: nat) \<and> (of_char c :: nat) \<le> 57"

definition numeric_char :: "char \<Rightarrow> bool" where
  "numeric_char c \<longleftrightarrow>
     decimal_char c \<or> (of_char c :: nat) \<in> set [178, 179, 185, 188, 189, 190]"

definition isnumeric :: "string \<Rightarrow> bool" where
  "isnumeric s \<longleftrightarrow> s \<noteq> [] \<and> list_all numeric_char s"

definition digit_value :: "char \<Rightarrow> int" where
  "digit_value c = int (of_char c) - 48"

definition decimal_value :: "string \<Rightarrow> int" where
  "decimal_value s = foldl (\<lambda>a c. 10 * a + digit_value c) 0 s"

text \<open>
  \<open>int(s)\<close> for a string \<open>s\<close> on which \<open>isnumeric\<close> holds, the only strings the source
  converts: such a string has no sign, blank or underscore, and \<open>int\<close> accepts it exactly
  when every character is a decimal digit. (The bound CPython puts on the number of digits
  of a literal is left out.)
\<close>

definition py_int :: "string \<Rightarrow> error + int" where
  "py_int s =
     (if list_all decimal_char s then Inr (decimal_value s)
      else Inl (ValueError ''invalid literal for int() with base 10''))"

section \<open>\<open>GIS/lib/ProjParser.py\<close>\<close>

definition InvalidCRSError :: error where
  "InvalidCRSError =
     ValueError ''Invalid coordinate system. It must be an EPSG code, a WKT string, or a pyproj CRS object.''"

text \<open>
  \<open>parse_crs\<close>: the \<open>if\<close>/\<open>elif\<close> chain of the source in its order. The result is
  \<open>Some\<close> CRS object, or \<open>None\<close> for the argument \<open>None\<close>.
\<close>

fun parse_crs :: "'crs projlib \<Rightarrow> 'crs pyval \<Rightarrow> error + 'crs option" where
  "parse_crs lib (PInt n) = lib_call (from_epsg lib n)"
| "parse_crs lib (PStr s) =
     (if isnumeric s then
        (case py_int s of
           Inl e \<Rightarrow> Inl e
         | Inr n \<Rightarrow> lib_call (from_epsg lib n))
      else lib_call (from_wkt lib s))"
| "parse_crs lib (PCRS c) = Inr (Some c)"
| "parse_crs lib PNone = Inr None"
| "parse_crs lib (POther t) = Inl InvalidCRSError"

text \<open>The five kinds of value the resolver recognises.\<close>

fun recognised :: "'crs pyval \<Rightarrow> bool" where
  "recognised (POther t) = False"
| "recognised v = True"


section \<open>Tables, geometry sets and the outside world\<close>

text \<open>
  A pandas \<open>DataFrame\<close> is its columns in order: a name and the values of the column, which
  are numbers, strings or point geometries. A \<open>GeoDataFrame\<close> is a table with a CRS tag
  (or none); its point geometries are the column named \<open>geometry\<close>.
\<close>

datatype column = NumCol "real list" | StrCol "string list" | GeoCol "point list"

type_synonym frame = "(string \<times> column) list"

record 'crs gdf =
  columns :: frame
  crs :: "'crs option"

definition names :: "frame \<Rightarrow> string list" where
  "names f = map fst f"

definition get_col :: "frame \<Rightarrow> string \<Rightarrow> column option" where
  "get_col f n = map_of f n"

fun col_len :: "column \<Rightarrow> nat" where
  "col_len (NumCol xs) = length xs"
| "col_len (StrCol xs) = length xs"
| "col_len (GeoCol xs) = length xs"

definition nrows :: "frame \<Rightarrow> nat" where
  "nrows f = (case f of [] \<Rightarrow> 0 | (n, c) # _ \<Rightarrow> col_len c)"

text \<open>A table as \<open>pd.read_csv\<close> gives it: column names are unique, columns equally long.\<close>

definition wf_frame :: "frame \<Rightarrow> bool" where
  "wf_frame f \<longleftrightarrow> distinct (names f) \<and> list_all (\<lambda>(n, c). col_len c = nrows f) f"

text \<open>
  \<open>df[n] = c\<close>: an existing column keeps its place and takes the new values, a new name
  is appended as the last column.
\<close>

fun set_col :: "frame \<Rightarrow> string \<Rightarrow> column \<Rightarrow> frame" where
  "set_col [] n c = [(n, c)]"
| "set_col ((m, d) # f) n c = (if m = n then (n, c) # f else (m, d) # set_col f n c)"

text \<open>\<open>df.drop(columns=[n])\<close>: \<open>KeyError\<close> when there is no such column.\<close>

definition drop_col :: "frame \<Rightarrow> string \<Rightarrow> error + frame" where
  "drop_col f n =
     (if n \<in> set (names f) then Inr (filter (\<lambda>(m, c). m \<noteq> n) f) else Inl KeyError)"

text \<open>
  The file system maps a path to a regular file: a delimited text table, a vector
  dataset (shapefile), or a file that is neither. The world also holds the lines waiting
  on standard input and the trace of everything the program did to the outside.
\<close>

datatype 'crs content = Table frame | Features "'crs gdf" | Unreadable

datatype event =
    IsFile string
  | ReadFile string
  | WriteFile string
  | Print string
  | Input string

record 'crs world =
  files :: "string \<Rightarrow> 'crs content option"
  stdin :: "string list"
  log :: "event list"

type_synonym ('a, 'crs) io = "'crs world \<Rightarrow> (error + 'a) \<times> 'crs world"

definition return_io :: "'a \<Rightarrow> ('a, 'crs) io" where
  "return_io a w = (Inr a, w)"

definition raise_io :: "error \<Rightarrow> ('a, 'crs) io" where
  "raise_io e w = (Inl e, w)"

definition lift_io :: "error + 'a \<Rightarrow> ('a, 'crs) io" where
  "lift_io r w = (r, w)"

definition bind_io :: "('a, 'crs) io \<Rightarrow> ('a \<Rightarrow> ('b, 'crs) io) \<Rightarrow> ('b, 'crs) io" where
  "bind_io m k w = (case m w of (Inl e, w') \<Rightarrow> (Inl e, w') | (Inr a, w') \<Rightarrow> k a w')"

definition isfile :: "string \<Rightarrow> (bool, 'crs) io" where
  "isfile p w = (Inr (files w p \<noteq> None), w\<lparr>log := log w @ [IsFile p]\<rparr>)"

definition read_csv :: "string \<Rightarrow> (frame, 'crs) io" where
  "read_csv p w =
     ((case files w p of
         None \<Rightarrow> Inl FileNotFoundError
       | Some (Table f) \<Rightarrow> Inr f
       | Some _ \<Rightarrow> Inl ParserError),
      w\<lparr>log := log w @ [ReadFile p]\<rparr>)"

definition read_file :: "string \<Rightarrow> ('crs gdf, 'crs) io" where
  "read_file p w =
     ((case files w p of
         None \<Rightarrow> Inl FileNotFoundError
       | Some (Features g) \<Rightarrow> Inr g
       | Some _ \<Rightarrow> Inl ParserError),
      w\<lparr>log := log w @ [ReadFile p]\<rparr>)"

text \<open>Writing is taken to succeed: the file at the path becomes the table written.\<close>

definition to_csv :: "'crs gdf \<Rightarrow> string \<Rightarrow> (unit, 'crs) io" where
  "to_csv g p w =
     (Inr (), w\<lparr>files := (files w)(p := Some (Table (columns g))),
                 log := log w @ [WriteFile p]\<rparr>)"

definition to_file :: "'crs gdf \<Rightarrow> string \<Rightarrow> (unit, 'crs) io" where
  "to_file g p w =
     (Inr (), w\<lparr>files := (files w)(p := Some (Features g)),
                 log := log w @ [WriteFile p]\<rparr>)"

definition print :: "string \<Rightarrow> (unit, 'crs) io" where
  "print s w = (Inr (), w\<lparr>log := log w @ [Print s]\<rparr>)"

text \<open>\<open>input()\<close> takes the next line of standard input; at end of input it raises.\<close>

definition input :: "(string, 'crs) io" where
  "input w =
     (case stdin w of
        [] \<Rightarrow> (Inl EOFError, w)
      | l # ls \<Rightarrow> (Inr l, w\<lparr>stdin := ls, log := log w @ [Input l]\<rparr>))"

text \<open>What the trace says was written and printed.\<close>

fun is_write :: "event \<Rightarrow> bool" where
  "is_write (WriteFile p) = True"
| "is_write e = False"

fun is_file_io :: "event \<Rightarrow> bool" where
  "is_file_io (IsFile p) = True"
| "is_file_io (ReadFile p) = True"
| "is_file_io (WriteFile p) = True"
| "is_file_io e = False"

section \<open>\<open>GIS/management.py\<close>\<close>

datatype in_table = TablePath string | TableFrame frame | TableInvalid

datatype 'crs in_dataset = DatasetPath string | DatasetFrame "'crs gdf" | DatasetInvalid

datatype out_path = OutPath string | OutNone | OutInvalid

fun px :: "point \<Rightarrow> real" where "px (Point x y z) = x"

fun py :: "point \<Rightarrow> real" where "py (Point x y z) = y"

text \<open>
  \<open>gpd.points_from_xy\<close> converts its columns to floating point numbers and fails on a
  column that holds anything else.
\<close>

fun as_floats :: "column \<Rightarrow> error + real list" where
  "as_floats (NumCol xs) = Inr xs"
| "as_floats (StrCol xs) = Inl (ValueError ''could not convert string to float'')"
| "as_floats (GeoCol xs) = Inl TypeError"

definition bind_e :: "error + 'a \<Rightarrow> ('a \<Rightarrow> error + 'b) \<Rightarrow> error + 'b" where
  "bind_e r k = (case r of Inl e \<Rightarrow> Inl e | Inr a \<Rightarrow> k a)"

definition column_of :: "frame \<Rightarrow> string \<Rightarrow> error + column" where
  "column_of f n = (case get_col f n of None \<Rightarrow> Inl KeyError | Some c \<Rightarrow> Inr c)"

definition points_from_xy :: "column \<Rightarrow> column \<Rightarrow> column option \<Rightarrow> error + point list" where
  "points_from_xy cx cy cz =
     bind_e (as_floats cx) (\<lambda>xs.
     bind_e (as_floats cy) (\<lambda>ys.
       case cz of
         None \<Rightarrow> Inr (map (\<lambda>(a, b). Point a b None) (zip xs ys))
       | Some c \<Rightarrow>
           bind_e (as_floats c) (\<lambda>zs.
             Inr (map (\<lambda>(a, b, c). Point a b (Some c)) (zip xs (zip ys zs))))))"

text \<open>
  The geometry argument of the constructor in \<open>XYTableToPoint\<close>: \<open>df[x_field]\<close>,
  \<open>df[y_field]\<close> and, with a z field, \<open>df[z_field]\<close>, handed to \<open>points_from_xy\<close>.
\<close>

definition table_points :: "frame \<Rightarrow> string \<Rightarrow> string \<Rightarrow> string option \<Rightarrow> error + point list" where
  "table_points df x_field y_field z_field =
     bind_e (column_of df x_field) (\<lambda>cx.
     bind_e (column_of df y_field) (\<lambda>cy.
       case z_field of
         None \<Rightarrow> points_from_xy cx cy None
       | Some zf \<Rightarrow> bind_e (column_of df zf) (\<lambda>cz. points_from_xy cx cy (Some cz))))"

definition field_missing :: "string \<Rightarrow> string \<Rightarrow> error" where
  "field_missing axis n =
     ValueError (''The '' @ axis @ '' field '' @ [CHR 0x27] @ n @ [CHR 0x27]
                 @ '' does not exist in the input table.'')"

text \<open>
  \<open>XYTableToPoint\<close>. \<open>gpd.GeoDataFrame(df, geometry=...)\<close> stores the points as the
  column \<open>geometry\<close> of the table, over a column of that name if the table has one, and
  the new set carries no CRS until \<open>set_crs\<close> tags it.
\<close>

definition XYTableToPoint ::
  "'crs projlib \<Rightarrow> in_table \<Rightarrow> out_path \<Rightarrow> string \<Rightarrow> string \<Rightarrow> string option \<Rightarrow> 'crs pyval
     \<Rightarrow> ('crs gdf, 'crs) io" where
  "XYTableToPoint lib in_tab out_feature_class x_field y_field z_field coordinate_system =
     bind_io
       (case in_tab of
          TablePath p \<Rightarrow> read_csv p
        | TableFrame f \<Rightarrow> return_io f
        | TableInvalid \<Rightarrow>
            raise_io (ValueError ''Invalid input table. It must be a path to a csv or txt file, or a pandas DataFrame object.''))
       (\<lambda>df.
          if x_field \<notin> set (names df) then raise_io (field_missing ''x'' x_field)
          else if y_field \<notin> set (names df) then raise_io (field_missing ''y'' y_field)
          else if z_field \<noteq> None \<and> the z_field \<notin> set (names df)
            then raise_io (field_missing ''z'' (the z_field))
          else
            bind_io (lift_io (table_points df x_field y_field z_field)) (\<lambda>pts.
            bind_io
              (let gdf = \<lparr>columns = set_col df ''geometry'' (GeoCol pts), crs = None\<rparr> in
               case coordinate_system of
                 PNone \<Rightarrow> return_io gdf
               | _ \<Rightarrow>
                   bind_io (lift_io (parse_crs lib coordinate_system)) (\<lambda>c.
                     return_io (gdf\<lparr>crs := c\<rparr>)))
              (\<lambda>gdf.
                 case out_feature_class of
                   OutPath p \<Rightarrow> bind_io (to_file gdf p) (\<lambda>u. return_io gdf)
                 | OutNone \<Rightarrow> return_io gdf
                 | OutInvalid \<Rightarrow>
                     raise_io (ValueError ''Invalid output feature class. It must be a path to a shapefile.''))))"

definition no_target_warning :: string where
  "no_target_warning =
     ''Warning: The output coordinate system is not specified. The output dataset will same as the input dataset.''"

definition UndefinedSourceCRSError :: error where
  "UndefinedSourceCRSError =
     ValueError ''Cannot transform naive geometries.  Please set a crs on the object first.''"

text \<open>
  \<open>GeoDataFrame.to_crs\<close>: it needs the geometry column, refuses a set without a CRS,
  and otherwise transforms every point from the CRS of the set to the target and tags the
  new set with the target.
\<close>

definition to_crs :: "'crs projlib \<Rightarrow> 'crs gdf \<Rightarrow> 'crs option \<Rightarrow> error + 'crs gdf" where
  "to_crs lib g target =
     (case target of
        None \<Rightarrow> Inl (ValueError ''Must pass either crs or epsg.'')
      | Some dst \<Rightarrow>
          (case get_col (columns g) ''geometry'' of
             Some (GeoCol pts) \<Rightarrow>
               (case crs g of
                  None \<Rightarrow> Inl UndefinedSourceCRSError
                | Some src \<Rightarrow>
                    Inr \<lparr>columns = set_col (columns g) ''geometry''
                                     (GeoCol (map (transform lib src dst) pts)),
                         crs = Some dst\<rparr>)
           | _ \<Rightarrow> Inl AttributeError))"

definition Project ::
  "'crs projlib \<Rightarrow> 'crs in_dataset \<Rightarrow> out_path \<Rightarrow> 'crs pyval \<Rightarrow> ('crs gdf, 'crs) io" where
  "Project lib in_ds out_dataset out_coor_system =
     bind_io
       (case in_ds of
          DatasetPath p \<Rightarrow> read_file p
        | DatasetFrame g \<Rightarrow> return_io g
        | DatasetInvalid \<Rightarrow>
            raise_io (ValueError ''Invalid input dataset. It must be a path to a shapefile or a geopandas GeoDataFrame object.''))
       (\<lambda>gdf.
          bind_io
            (case out_coor_system of
               PNone \<Rightarrow> bind_io (print no_target_warning) (\<lambda>u. return_io gdf)
             | _ \<Rightarrow>
                 bind_io (lift_io (parse_crs lib out_coor_system)) (\<lambda>c.
                   lift_io (to_crs lib gdf c)))
            (\<lambda>gdf.
               case out_dataset of
                 OutPath p \<Rightarrow> bind_io (to_file gdf p) (\<lambda>u. return_io gdf)
               | OutNone \<Rightarrow> return_io gdf
               | OutInvalid \<Rightarrow>
                   raise_io (ValueError ''Invalid output dataset. It must be a path to a shapefile.'')))"

section \<open>\<open>coordinate_transform/coordinate_transform.py\<close>\<close>

definition require :: "bool \<Rightarrow> error \<Rightarrow> error + unit" where
  "require b e = (if b then Inr () else Inl e)"

text \<open>\<open>isinstance(v, str)\<close>, with the exception raised when it does not hold.\<close>

fun str_arg :: "'crs pyval \<Rightarrow> error \<Rightarrow> error + string" where
  "str_arg (PStr s) e = Inr s"
| "str_arg v e = Inl e"

text \<open>The test of \<open>out_table_path\<close>: \<open>None\<close> passes, anything else must be a string.\<close>

fun path_arg :: "'crs pyval \<Rightarrow> error + string option" where
  "path_arg PNone = Inr None"
| "path_arg (PStr p) = Inr (Some p)"
| "path_arg v = Inl (ValueError ''out_table_path must be a string'')"

text \<open>A resolved CRS handed on as an argument: the CRS object, or \<open>None\<close>.\<close>

fun crs_arg :: "'crs option \<Rightarrow> 'crs pyval" where
  "crs_arg None = PNone"
| "crs_arg (Some c) = PCRS c"

record 'crs checked =
  x_in :: string
  y_in :: string
  crs_in :: "'crs option"
  path_out :: "string option"
  x_out :: string
  y_out :: string
  crs_out :: "'crs option"

text \<open>
  The checks between reading the table and building the points (the blocks marked
  \<open>CHECK\<close> after \<open>READ\<close>), in the order of the source. None of them touches the world.
\<close>

definition check_inputs ::
  "'crs projlib \<Rightarrow> frame \<Rightarrow> 'crs pyval \<Rightarrow> 'crs pyval \<Rightarrow> 'crs pyval \<Rightarrow> 'crs pyval
     \<Rightarrow> 'crs pyval \<Rightarrow> 'crs pyval \<Rightarrow> 'crs pyval \<Rightarrow> error + 'crs checked" where
  "check_inputs lib df in_x_field in_y_field in_crs out_table_path out_x_field out_y_field out_crs =
     bind_e (require (in_x_field \<noteq> in_y_field) (ValueError ''in_x_field same as in_y_field'')) (\<lambda>u.
     bind_e (str_arg in_x_field (ValueError ''in_x_field must be a string'')) (\<lambda>x.
     bind_e (require (x \<in> set (names df))
               (ValueError ''in_x_field does not exist in the input table'')) (\<lambda>u.
     bind_e (str_arg in_y_field (ValueError ''in_y_field must be a string'')) (\<lambda>y.
     bind_e (require (y \<in> set (names df))
               (ValueError ''in_y_field does not exist in the input table'')) (\<lambda>u.
     bind_e (parse_crs lib in_crs) (\<lambda>ic.
     bind_e (path_arg out_table_path) (\<lambda>op.
     bind_e (require (out_x_field \<noteq> out_y_field) (ValueError ''out_x_field same as out_y_field'')) (\<lambda>u.
     bind_e (str_arg out_x_field (ValueError ''out_x_field must be a string'')) (\<lambda>ox.
     bind_e (str_arg out_y_field (ValueError ''out_y_field must be a string'')) (\<lambda>oy.
     bind_e (parse_crs lib out_crs) (\<lambda>oc.
       Inr \<lparr>x_in = x, y_in = y, crs_in = ic, path_out = op,
            x_out = ox, y_out = oy, crs_out = oc\<rparr>)))))))))))"

text \<open>
  \<open>df['geometry'].x\<close> and \<open>df['geometry'].y\<close>: the coordinates of the points of the
  geometry column; a column that holds no geometries has no such attribute.
\<close>

definition geometry_coords :: "'crs gdf \<Rightarrow> (point \<Rightarrow> real) \<Rightarrow> error + real list" where
  "geometry_coords g coord =
     (case get_col (columns g) ''geometry'' of
        None \<Rightarrow> Inl KeyError
      | Some (GeoCol pts) \<Rightarrow> Inr (map coord pts)
      | Some _ \<Rightarrow> Inl AttributeError)"

text \<open>The block that turns the geometry column into the two output fields and drops it.\<close>

definition geometry_to_fields :: "'crs gdf \<Rightarrow> string \<Rightarrow> string \<Rightarrow> error + 'crs gdf" where
  "geometry_to_fields df out_x_field out_y_field =
     bind_e (geometry_coords df px) (\<lambda>xs.
       let df1 = df\<lparr>columns := set_col (columns df) out_x_field (NumCol xs)\<rparr> in
       bind_e (geometry_coords df1 py) (\<lambda>ys.
         let df2 = df1\<lparr>columns := set_col (columns df1) out_y_field (NumCol ys)\<rparr> in
         bind_e (drop_col (columns df2) ''geometry'') (\<lambda>f.
           Inr (df2\<lparr>columns := f\<rparr>))))"

definition overwrite_warning :: string where
  "overwrite_warning =
     [CHR 0x1B] @ ''[33m''
     @ ''Warning: The output table path is the same as the input table path. Are you sure you want to overwrite? (Y/n)''
     @ [CHR 0x1B] @ ''[0m''"

definition OverwriteDeclinedError :: error where
  "OverwriteDeclinedError = Exception ''The original file will not be overwritten.''"

text \<open>The block marked \<open>SAVE\<close>.\<close>

definition save :: "'crs gdf \<Rightarrow> string \<Rightarrow> string option \<Rightarrow> (unit, 'crs) io" where
  "save df in_table_path out_table_path =
     (case out_table_path of
        None \<Rightarrow> return_io ()
      | Some p \<Rightarrow>
          if p = in_table_path then
            bind_io (print overwrite_warning) (\<lambda>u.
            bind_io input (\<lambda>answer.
              if answer = ''Y'' then to_csv df p
              else raise_io OverwriteDeclinedError))
          else to_csv df p)"

text \<open>The part of \<open>coordinate_transform\<close> before the block marked \<open>SAVE\<close>.\<close>

definition transform_table ::
  "'crs projlib \<Rightarrow> string \<Rightarrow> 'crs pyval \<Rightarrow> 'crs pyval \<Rightarrow> 'crs pyval \<Rightarrow> 'crs pyval
     \<Rightarrow> 'crs pyval \<Rightarrow> 'crs pyval \<Rightarrow> 'crs pyval \<Rightarrow> ('crs gdf \<times> string option, 'crs) io" where
  "transform_table lib in_table_path in_x_field in_y_field in_crs out_table_path
       out_x_field out_y_field out_crs =
     bind_io (isfile in_table_path) (\<lambda>is_file.
       if \<not> is_file then raise_io (ValueError ''in_table_path does not exist.'')
       else
         bind_io (read_csv in_table_path) (\<lambda>df.
         bind_io (lift_io (check_inputs lib df in_x_field in_y_field in_crs out_table_path
                             out_x_field out_y_field out_crs)) (\<lambda>a.
         bind_io (XYTableToPoint lib (TableFrame df) OutNone (x_in a) (y_in a) None
                    (crs_arg (crs_in a))) (\<lambda>df.
         bind_io (Project lib (DatasetFrame df) OutNone (crs_arg (crs_out a))) (\<lambda>df.
         bind_io (lift_io (geometry_to_fields df (x_out a) (y_out a))) (\<lambda>df.
           return_io (df, path_out a)))))))"

definition coordinate_transform ::
  "'crs projlib \<Rightarrow> string \<Rightarrow> 'crs pyval \<Rightarrow> 'crs pyval \<Rightarrow> 'crs pyval \<Rightarrow> 'crs pyval
     \<Rightarrow> 'crs pyval \<Rightarrow> 'crs pyval \<Rightarrow> 'crs pyval \<Rightarrow> ('crs gdf, 'crs) io" where
  "coordinate_transform lib in_table_path in_x_field in_y_field in_crs out_table_path
       out_x_field out_y_field out_crs =
     bind_io (transform_table lib in_table_path in_x_field in_y_field in_crs out_table_path
                out_x_field out_y_field out_crs) (\<lambda>(df, out_path).
     bind_io (save df in_table_path out_path) (\<lambda>u.
       return_io df))"

text \<open>
  A computation that leaves every file and the standard input as they are, and adds no
  write to the trace.
\<close>

definition no_write :: "('a, 'crs) io \<Rightarrow> bool" where
  "no_write m \<longleftrightarrow>
     (\<forall>w. files (snd (m w)) = files w \<and> stdin (snd (m w)) = stdin w
          \<and> (\<exists>evs. log (snd (m w)) = log w @ evs \<and> filter is_write evs = []))"

section \<open>Concrete inputs\<close>

text \<open>
  A projection library for the examples: it knows the authority codes 4326 and 3826 and one
  well-known text, raises \<open>CRSError\<close> for everything else, and its transformation
  swaps the two coordinates of a point.
\<close>

datatype demo_crs = EPSG int | WKT string

definition demo_lib :: "demo_crs projlib" where
  "demo_lib =
     \<lparr> from_epsg = (\<lambda>n. if n = 4326 \<or> n = 3826 then Some (EPSG n) else None),
       from_wkt = (\<lambda>s. if s = ''GEOGCS[WGS84]'' then Some (WKT s) else None),
       transform = (\<lambda>src dst p. case p of Point a b c \<Rightarrow> Point b a c) \<rparr>"

definition demo_table :: frame where
  "demo_table = [(''x'', NumCol [1, 2]), (''y'', NumCol [3, 4]), (''name'', StrCol [''a'', ''b''])]"

definition geometry_table :: frame where
  "geometry_table = [(''x'', NumCol [1]), (''geometry'', StrCol [''p'']), (''y'', NumCol [3])]"

text \<open>
  A world with the two tables on disk and the given lines waiting on standard input.
\<close>

definition demo_world :: "string list \<Rightarrow> demo_crs world" where
  "demo_world answers =
     \<lparr> files = (\<lambda>p. if p = ''in.csv'' then Some (Table demo_table)
                     else if p = ''geo.csv'' then Some (Table geometry_table)
                     else None),
       stdin = answers,
       log = [] \<rparr>"

definition demo_points :: "demo_crs gdf" where
  "demo_points =
     \<lparr> columns = [(''x'', NumCol [1]), (''geometry'', GeoCol [Point 1 3 None])], crs = None \<rparr>"

section \<open>The CRS resolver\<close>

lemma lib_call_not_invalid: "lib_call r \<noteq> Inl InvalidCRSError"
  by (simp add: lib_call_def InvalidCRSError_def split: option.split)

lemma py_int_not_invalid: "py_int s \<noteq> Inl InvalidCRSError"
  by (simp add: py_int_def InvalidCRSError_def)

lemma decimal_numeric: "s \<noteq> [] \<Longrightarrow> list_all decimal_char s \<Longrightarrow> isnumeric s"
  by (induction s) (auto simp: isnumeric_def numeric_char_def list_all_iff)

text \<open>
  Claim C3, as the code has it. For \<open>None\<close> the resolver returns the "no CRS" value and for
  a CRS object the object itself, and neither raises. For an integer, a non-empty string of
  decimal digits and a non-numeric string it returns the CRS the projection library
  resolves the code or the text to when the library accepts it, and raises the library's
  error when the library rejects it. For a numeric string that is not a decimal literal it
  raises the error of \<open>int\<close>. So on a recognised kind of value it fails only with one of
  these two errors. Its own error, for an invalid coordinate system, is raised exactly for
  the values of any other type.
\<close>

theorem parse_crs_results:
  "parse_crs lib PNone = Inr None
   \<and> parse_crs lib (PCRS h) = Inr (Some h)
   \<and> (from_epsg lib n = Some c \<longrightarrow> parse_crs lib (PInt n) = Inr (Some c))
   \<and> (from_epsg lib m = None \<longrightarrow> parse_crs lib (PInt m) = Inl CRSError)
   \<and> (s \<noteq> [] \<and> list_all decimal_char s \<and> from_epsg lib (decimal_value s) = Some d
        \<longrightarrow> parse_crs lib (PStr s) = Inr (Some d))
   \<and> (r \<noteq> [] \<and> list_all decimal_char r \<and> from_epsg lib (decimal_value r) = None
        \<longrightarrow> parse_crs lib (PStr r) = Inl CRSError)
   \<and> (isnumeric q \<and> \<not> list_all decimal_char q
        \<longrightarrow> parse_crs lib (PStr q) = Inl (ValueError ''invalid literal for int() with base 10''))
   \<and> (\<not> isnumeric t \<and> from_wkt lib t = Some k \<longrightarrow> parse_crs lib (PStr t) = Inr (Some k))
   \<and> (\<not> isnumeric u \<and> from_wkt lib u = None \<longrightarrow> parse_crs lib (PStr u) = Inl CRSError)
   \<and> (recognised v \<and> parse_crs lib v = Inl e
        \<longrightarrow> e = CRSError \<or> e = ValueError ''invalid literal for int() with base 10'')
   \<and> (parse_crs lib v = Inl InvalidCRSError \<longleftrightarrow> \<not> recognised v)"
proof -
  have a: "s \<noteq> [] \<and> list_all decimal_char s \<and> from_epsg lib (decimal_value s) = Some d
        \<longrightarrow> parse_crs lib (PStr s) = Inr (Some d)"
    using decimal_numeric [of s] by (simp add: py_int_def lib_call_def)
  have a': "r \<noteq> [] \<and> list_all decimal_char r \<and> from_epsg lib (decimal_value r) = None
        \<longrightarrow> parse_crs lib (PStr r) = Inl CRSError"
    using decimal_numeric [of r] by (simp add: py_int_def lib_call_def)
  have i: "isnumeric q \<and> \<not> list_all decimal_char q
        \<longrightarrow> parse_crs lib (PStr q) = Inl (ValueError ''invalid literal for int() with base 10'')"
    by (simp add: py_int_def)
  have b: "recognised v \<and> parse_crs lib v = Inl e
        \<longrightarrow> e = CRSError \<or> e = ValueError ''invalid literal for int() with base 10''"
    by (cases v) (auto simp: lib_call_def py_int_def split: option.splits if_splits sum.splits)
  have c: "parse_crs lib v = Inl InvalidCRSError \<longleftrightarrow> \<not> recognised v"
    using lib_call_not_invalid py_int_not_invalid
    by (cases v) (auto split: sum.splits if_splits)
  have l: "parse_crs lib PNone = Inr None \<and> parse_crs lib (PCRS h) = Inr (Some h)
     \<and> (from_epsg lib n = Some c \<longrightarrow> parse_crs lib (PInt n) = Inr (Some c))
     \<and> (from_epsg lib m = None \<longrightarrow> parse_crs lib (PInt m) = Inl CRSError)
     \<and> (\<not> isnumeric t \<and> from_wkt lib t = Some k \<longrightarrow> parse_crs lib (PStr t) = Inr (Some k))
     \<and> (\<not> isnumeric u \<and> from_wkt lib u = None \<longrightarrow> parse_crs lib (PStr u) = Inl CRSError)"
    by (simp add: lib_call_def)
  from a a' i b c l show ?thesis by (intro conjI) (elim conjE, assumption)+
qed

theorem parse_crs_results_witness:
  "from_epsg demo_lib 4326 = Some (EPSG 4326)
   \<and> parse_crs demo_lib (PInt 4326) = Inr (Some (EPSG 4326))
   \<and> from_epsg demo_lib 7 = None
   \<and> parse_crs demo_lib (PInt 7) = Inl CRSError
   \<and> ''3826'' \<noteq> [] \<and> list_all decimal_char ''3826''
   \<and> from_epsg demo_lib (decimal_value ''3826'') = Some (EPSG 3826)
   \<and> parse_crs demo_lib (PStr ''3826'') = Inr (Some (EPSG 3826))
   \<and> ''12'' \<noteq> [] \<and> list_all decimal_char ''12''
   \<and> from_epsg demo_lib (decimal_value ''12'') = None
   \<and> parse_crs demo_lib (PStr ''12'') = Inl CRSError
   \<and> isnumeric [CHR 0xBD] \<and> \<not> list_all decimal_char [CHR 0xBD]
   \<and> parse_crs demo_lib (PStr [CHR 0xBD])
       = Inl (ValueError ''invalid literal for int() with base 10'')
   \<and> \<not> isnumeric ''GEOGCS[WGS84]''
   \<and> from_wkt demo_lib ''GEOGCS[WGS84]'' = Some (WKT ''GEOGCS[WGS84]'')
   \<and> parse_crs demo_lib (PStr ''GEOGCS[WGS84]'') = Inr (Some (WKT ''GEOGCS[WGS84]''))
   \<and> \<not> isnumeric ''hello'' \<and> from_wkt demo_lib ''hello'' = None
   \<and> parse_crs demo_lib (PStr ''hello'') = Inl CRSError
   \<and> recognised (PInt 7 :: demo_crs pyval)
   \<and> \<not> recognised (POther 0 :: demo_crs pyval)
   \<and> parse_crs demo_lib (POther 0) = Inl InvalidCRSError"
proof -
  have e1: "from_epsg demo_lib 4326 = Some (EPSG 4326)" "from_epsg demo_lib 7 = None"
    by (simp_all add: demo_lib_def)
  have e2: "''3826'' \<noteq> [] \<and> list_all decimal_char ''3826''
    \<and> from_epsg demo_lib (decimal_value ''3826'') = Some (EPSG 3826)"
    by (simp add: demo_lib_def decimal_char_def decimal_value_def digit_value_def)
  have e2': "''12'' \<noteq> [] \<and> list_all decimal_char ''12''
    \<and> from_epsg demo_lib (decimal_value ''12'') = None"
    by (simp add: demo_lib_def decimal_char_def decimal_value_def digit_value_def)
  have e3: "\<not> isnumeric ''GEOGCS[WGS84]''
   \<and> from_wkt demo_lib ''GEOGCS[WGS84]'' = Some (WKT ''GEOGCS[WGS84]'')"
    by (simp add: demo_lib_def isnumeric_def numeric_char_def decimal_char_def)
  have e3': "\<not> isnumeric ''hello'' \<and> from_wkt demo_lib ''hello'' = None"
    by (simp add: demo_lib_def isnumeric_def numeric_char_def decimal_char_def)
  have e4: "isnumeric [CHR 0xBD] \<and> \<not> list_all decimal_char [CHR 0xBD]"
    by (simp add: isnumeric_def numeric_char_def decimal_char_def)
  have e5: "recognised (PInt 7 :: demo_crs pyval)" "\<not> recognised (POther 0 :: demo_crs pyval)"
    by simp_all
  from parse_crs_results [where lib = demo_lib and n = 4326 and c = "EPSG 4326" and m = 7
      and s = "''3826''" and d = "EPSG 3826" and r = "''12''" and q = "[CHR 0xBD]"
      and t = "''GEOGCS[WGS84]''" and k = "WKT ''GEOGCS[WGS84]''" and u = "''hello''"
      and v = "POther 0" and e = CRSError and h = "EPSG 0"]
    e1 e2 e2' e3 e3' e4 e5
  show ?thesis by blast
qed

text \<open>
  Claim C3 as stated fails: on a numeric string that is not a decimal literal (the
  one-character string U+00BD), on an integer the library does not know, and on a
  non-numeric string the library does not accept, the resolver raises.
\<close>

theorem parse_crs_raises_on_recognised:
  "recognised (PStr [CHR 0xBD] :: demo_crs pyval)
   \<and> isnumeric [CHR 0xBD]
   \<and> parse_crs demo_lib (PStr [CHR 0xBD])
       = Inl (ValueError ''invalid literal for int() with base 10'')
   \<and> recognised (PInt 0 :: demo_crs pyval)
   \<and> parse_crs demo_lib (PInt 0) = Inl CRSError
   \<and> recognised (PStr ''hello'' :: demo_crs pyval)
   \<and> \<not> isnumeric ''hello''
   \<and> parse_crs demo_lib (PStr ''hello'') = Inl CRSError"
  by (simp add: isnumeric_def numeric_char_def decimal_char_def py_int_def demo_lib_def
      lib_call_def)

text \<open>
  Claim C4, as the code has it. The resolver tests, in this order: an integer, resolved as
  an authority code; a string on which \<open>isnumeric\<close> holds, converted with \<open>int\<close> and
  resolved as an authority code; any other string, the empty one included, parsed as
  well-known text; a CRS object, returned as it is; \<open>None\<close>, for which it returns the
  "no CRS" value. Every non-empty string of decimal digits is numeric and so an authority
  code. A numeric string that is not a decimal literal is neither: \<open>int\<close> raises on it.
\<close>

theorem parse_crs_dispatch:
  "parse_crs lib (PInt n) = lib_call (from_epsg lib n)
   \<and> (s \<noteq> [] \<and> list_all decimal_char s
        \<longrightarrow> parse_crs lib (PStr s) = lib_call (from_epsg lib (decimal_value s)))
   \<and> (isnumeric t \<and> \<not> list_all decimal_char t
        \<longrightarrow> parse_crs lib (PStr t) = Inl (ValueError ''invalid literal for int() with base 10''))
   \<and> (\<not> isnumeric u \<longrightarrow> parse_crs lib (PStr u) = lib_call (from_wkt lib u))
   \<and> parse_crs lib (PStr []) = lib_call (from_wkt lib [])
   \<and> parse_crs lib (PCRS h) = Inr (Some h)
   \<and> parse_crs lib PNone = Inr None"
  using decimal_numeric [of s] by (simp add: py_int_def isnumeric_def)

theorem parse_crs_dispatch_witness:
  "''4326'' \<noteq> [] \<and> list_all decimal_char ''4326'' \<and> decimal_value ''4326'' = 4326
   \<and> parse_crs demo_lib (PStr ''4326'') = lib_call (from_epsg demo_lib 4326)
   \<and> isnumeric [CHR 0xB2] \<and> \<not> list_all decimal_char [CHR 0xB2]
   \<and> parse_crs demo_lib (PStr [CHR 0xB2])
       = Inl (ValueError ''invalid literal for int() with base 10'')
   \<and> \<not> isnumeric ''GEOGCS[WGS84]''
   \<and> parse_crs demo_lib (PStr ''GEOGCS[WGS84]'') = lib_call (from_wkt demo_lib ''GEOGCS[WGS84]'')"
proof -
  have e1: "''4326'' \<noteq> [] \<and> list_all decimal_char ''4326'' \<and> decimal_value ''4326'' = 4326"
    by (simp add: decimal_char_def decimal_value_def digit_value_def)
  have e2: "isnumeric [CHR 0xB2] \<and> \<not> list_all decimal_char [CHR 0xB2]"
    by (simp add: isnumeric_def numeric_char_def decimal_char_def)
  have e3: "\<not> isnumeric ''GEOGCS[WGS84]''"
    by (simp add: isnumeric_def numeric_char_def decimal_char_def)
  from parse_crs_dispatch [of demo_lib 0 "''4326''" "[CHR 0xB2]" "''GEOGCS[WGS84]''" "EPSG 0"]
    e1 e2 e3
  show ?thesis by metis
qed

text \<open>
  Claim C4 as stated fails on the one-character string U+00BD (the fraction one half): it
  is not composed of digits, yet it is not parsed as well-known text, because
  \<open>isnumeric\<close> holds of it and the authority-code branch raises in \<open>int\<close>.
\<close>

theorem parse_crs_other_string_not_wkt:
  "\<not> list_all decimal_char [CHR 0xBD]
   \<and> from_wkt demo_lib [CHR 0xBD] = None
   \<and> lib_call (from_wkt demo_lib [CHR 0xBD]) = Inl CRSError
   \<and> parse_crs demo_lib (PStr [CHR 0xBD])
       = Inl (ValueError ''invalid literal for int() with base 10'')
   \<and> parse_crs demo_lib (PStr [CHR 0xBD]) \<noteq> lib_call (from_wkt demo_lib [CHR 0xBD])"
  by (simp add: isnumeric_def numeric_char_def decimal_char_def py_int_def demo_lib_def
      lib_call_def)

section \<open>Construction and reprojection\<close>

lemma bind_io_simps:
  "bind_io (return_io a) k = k a"
  "bind_io (raise_io e) k = raise_io e"
  "bind_io (lift_io (Inr a)) k = k a"
  "bind_io (lift_io (Inl e)) k = raise_io e"
  by (rule ext, simp add: bind_io_def return_io_def raise_io_def lift_io_def)+

lemma bind_io_lift:
  "bind_io (lift_io r) k w = (case r of Inl e \<Rightarrow> (Inl e, w) | Inr a \<Rightarrow> k a w)"
  by (simp add: bind_io_def lift_io_def split: sum.split)

lemma Project_frame_target:
  "parse_crs lib target = Inr (Some c) \<Longrightarrow>
   Project lib (DatasetFrame g) out target w =
     bind_io (lift_io (to_crs lib g (Some c)))
       (\<lambda>gdf. case out of
           OutPath p \<Rightarrow> bind_io (to_file gdf p) (\<lambda>u. return_io gdf)
         | OutNone \<Rightarrow> return_io gdf
         | OutInvalid \<Rightarrow>
             raise_io (ValueError ''Invalid output dataset. It must be a path to a shapefile.'')) w"
  by (cases target) (auto simp: Project_def bind_io_simps)

lemma to_crs_untagged:
  "crs g = None \<Longrightarrow> get_col (columns g) ''geometry'' = Some (GeoCol pts) \<Longrightarrow>
   to_crs lib g (Some c) = Inl UndefinedSourceCRSError"
  by (simp add: to_crs_def)

lemma get_col_set_col: "get_col (set_col f n c) n = Some c"
  by (induction f n c rule: set_col.induct) (auto simp: get_col_def)

lemma XYTableToPoint_untagged:
  assumes "XYTableToPoint lib (TableFrame f) OutNone x y z PNone w0 = (Inr g, w1)"
  shows "w1 = w0 \<and> crs g = None
    \<and> (\<exists>pts. table_points f x y z = Inr pts
          \<and> columns g = set_col f ''geometry'' (GeoCol pts))"
  using assms
  by (auto simp: XYTableToPoint_def bind_io_simps bind_io_lift raise_io_def return_io_def
      Let_def split: if_splits sum.splits)

text \<open>
  Claim C5. A geometry set with no CRS tag cannot be reprojected: for every target that
  the resolver resolves to a CRS, \<open>Project\<close> fails with the error for an undefined source
  CRS and does nothing to the world. The set \<open>XYTableToPoint\<close> builds with the coordinate
  system absent is such a set.
\<close>

theorem Project_undefined_source:
  "(crs g = None \<and> get_col (columns g) ''geometry'' = Some (GeoCol pts)
      \<and> parse_crs lib target = Inr (Some c)
     \<longrightarrow> Project lib (DatasetFrame g) out target w = (Inl UndefinedSourceCRSError, w))
   \<and> (XYTableToPoint lib (TableFrame f) OutNone x y z PNone w0 = (Inr g', w1)
      \<and> parse_crs lib target = Inr (Some c)
     \<longrightarrow> Project lib (DatasetFrame g') out target w1 = (Inl UndefinedSourceCRSError, w1))"
proof (intro conjI impI)
  assume a: "crs g = None \<and> get_col (columns g) ''geometry'' = Some (GeoCol pts)
      \<and> parse_crs lib target = Inr (Some c)"
  then show "Project lib (DatasetFrame g) out target w = (Inl UndefinedSourceCRSError, w)"
    by (simp add: Project_frame_target to_crs_untagged bind_io_simps raise_io_def)
next
  assume a: "XYTableToPoint lib (TableFrame f) OutNone x y z PNone w0 = (Inr g', w1)
      \<and> parse_crs lib target = Inr (Some c)"
  then obtain pts where "crs g' = None" "columns g' = set_col f ''geometry'' (GeoCol pts)"
    using XYTableToPoint_untagged [of lib f x y z w0 g' w1] by blast
  then have "to_crs lib g' (Some c) = Inl UndefinedSourceCRSError"
    by (simp add: to_crs_untagged get_col_set_col)
  with a show "Project lib (DatasetFrame g') out target w1 = (Inl UndefinedSourceCRSError, w1)"
    by (simp add: Project_frame_target bind_io_simps raise_io_def)
qed

theorem Project_undefined_source_witness:
  "crs demo_points = None
   \<and> get_col (columns demo_points) ''geometry'' = Some (GeoCol [Point 1 3 None])
   \<and> parse_crs demo_lib (PInt 4326) = Inr (Some (EPSG 4326))
   \<and> Project demo_lib (DatasetFrame demo_points) OutNone (PInt 4326) (demo_world [])
       = (Inl UndefinedSourceCRSError, demo_world [])
   \<and> XYTableToPoint demo_lib (TableFrame demo_table) OutNone ''x'' ''y'' None PNone (demo_world [])
       = (Inr \<lparr>columns = demo_table @ [(''geometry'', GeoCol [Point 1 3 None, Point 2 4 None])],
               crs = None\<rparr>, demo_world [])
   \<and> Project demo_lib
        (DatasetFrame \<lparr>columns = demo_table @ [(''geometry'', GeoCol [Point 1 3 None, Point 2 4 None])],
               crs = None\<rparr>) OutNone (PInt 4326) (demo_world [])
       = (Inl UndefinedSourceCRSError, demo_world [])"
proof -
  have e1: "crs demo_points = None
    \<and> get_col (columns demo_points) ''geometry'' = Some (GeoCol [Point 1 3 None])"
    by (simp add: demo_points_def get_col_def)
  have e2: "parse_crs demo_lib (PInt 4326) = Inr (Some (EPSG 4326))"
    by (simp add: demo_lib_def lib_call_def)
  have e3: "XYTableToPoint demo_lib (TableFrame demo_table) OutNone ''x'' ''y'' None PNone
       (demo_world [])
       = (Inr \<lparr>columns = demo_table @ [(''geometry'', GeoCol [Point 1 3 None, Point 2 4 None])],
               crs = None\<rparr>, demo_world [])"
    by (simp add: XYTableToPoint_def bind_io_simps return_io_def names_def demo_table_def
        table_points_def column_of_def get_col_def bind_e_def points_from_xy_def)
  from Project_undefined_source [of demo_points "[Point 1 3 None]" demo_lib "PInt 4326"
      "EPSG 4326" OutNone "demo_world []" demo_table "''x''" "''y''" None "demo_world []"
      "\<lparr>columns = demo_table @ [(''geometry'', GeoCol [Point 1 3 None, Point 2 4 None])],
               crs = None\<rparr>" "demo_world []"] e1 e2 e3
  show ?thesis by blast
qed

text \<open>
  Claim C6. With the target CRS absent, \<open>Project\<close> prints its warning and returns the
  geometry set it was given, columns and CRS tag unchanged, and does not raise, whether the
  result is also saved to a path or not.
\<close>

theorem Project_no_target:
  "Project lib (DatasetFrame g) OutNone PNone w
     = (Inr g, w\<lparr>log := log w @ [Print no_target_warning]\<rparr>)
   \<and> (out \<noteq> OutInvalid
      \<longrightarrow> fst (Project lib (DatasetFrame g) out PNone w) = Inr g
          \<and> Print no_target_warning \<in> set (log (snd (Project lib (DatasetFrame g) out PNone w))))"
  by (cases out)
     (simp_all add: Project_def bind_io_def return_io_def print_def to_file_def)

theorem Project_no_target_witness:
  "OutPath ''out.shp'' \<noteq> OutInvalid
   \<and> fst (Project demo_lib (DatasetFrame demo_points) (OutPath ''out.shp'') PNone (demo_world []))
       = Inr demo_points
   \<and> Print no_target_warning
       \<in> set (log (snd (Project demo_lib (DatasetFrame demo_points) (OutPath ''out.shp'') PNone
                         (demo_world []))))"
  using Project_no_target [of demo_lib demo_points "demo_world []" "OutPath ''out.shp''"]
  by simp

section \<open>The pipeline and its side effects\<close>

lemma bind_io_Inr:
  "bind_io m k w = (Inr b, w') \<longleftrightarrow> (\<exists>a w1. m w = (Inr a, w1) \<and> k a w1 = (Inr b, w'))"
  by (auto simp: bind_io_def split: prod.splits sum.splits)

lemma no_write_return: "no_write (return_io a)"
  by (simp add: no_write_def return_io_def)

lemma no_write_raise: "no_write (raise_io e)"
  by (simp add: no_write_def raise_io_def)

lemma no_write_lift: "no_write (lift_io r)"
  by (simp add: no_write_def lift_io_def)

lemma no_write_isfile: "no_write (isfile p)"
  by (simp add: no_write_def isfile_def)

lemma no_write_read_csv: "no_write (read_csv p)"
  by (simp add: no_write_def read_csv_def)

lemma no_write_print: "no_write (print s)"
  by (simp add: no_write_def print_def)

lemma no_write_bind:
  assumes m: "no_write m" and k: "\<And>a. no_write (k a)"
  shows "no_write (bind_io m k)"
  unfolding no_write_def
proof (intro allI)
  fix w
  obtain r w1 where mw: "m w = (r, w1)" by (cases "m w")
  from m have m1: "files w1 = files w" "stdin w1 = stdin w"
    and "\<exists>evs. log w1 = log w @ evs \<and> filter is_write evs = []"
    using mw by (auto simp: no_write_def dest: spec [of _ w])
  then obtain evs where evs: "log w1 = log w @ evs" "filter is_write evs = []" by blast
  show "files (snd (bind_io m k w)) = files w \<and> stdin (snd (bind_io m k w)) = stdin w
        \<and> (\<exists>evs. log (snd (bind_io m k w)) = log w @ evs \<and> filter is_write evs = [])"
  proof (cases r)
    case (Inl e)
    then show ?thesis using mw m1 evs by (simp add: bind_io_def)
  next
    case (Inr a)
    from k [of a] have "files (snd (k a w1)) = files w1" "stdin (snd (k a w1)) = stdin w1"
      and "\<exists>evs. log (snd (k a w1)) = log w1 @ evs \<and> filter is_write evs = []"
      by (auto simp: no_write_def)
    then obtain evs' where "log (snd (k a w1)) = log w1 @ evs'" "filter is_write evs' = []"
      and "files (snd (k a w1)) = files w1" "stdin (snd (k a w1)) = stdin w1"
      by blast
    then show ?thesis using Inr mw m1 evs
      by (auto simp: bind_io_def intro!: exI [of _ "evs @ evs'"])
  qed
qed

lemma no_write_XYTableToPoint:
  "no_write (XYTableToPoint lib (TableFrame f) OutNone x y z cs)"
  unfolding XYTableToPoint_def
  by (auto intro!: no_write_bind no_write_return no_write_raise no_write_lift
      simp: Let_def split: pyval.split)

lemma no_write_Project: "no_write (Project lib (DatasetFrame g) OutNone t)"
  unfolding Project_def
  by (auto intro!: no_write_bind no_write_return no_write_raise no_write_lift no_write_print
      split: pyval.split)

lemma no_write_transform_table:
  "no_write (transform_table lib p ix iy ic out ox oy oc)"
  unfolding transform_table_def
  by (auto intro!: no_write_bind no_write_return no_write_raise no_write_lift
      no_write_isfile no_write_read_csv no_write_XYTableToPoint no_write_Project)


lemma check_inputs_path:
  "check_inputs lib df ix iy ic (PStr q) ox oy oc =
     (case check_inputs lib df ix iy ic PNone ox oy oc of
        Inl e \<Rightarrow> Inl e
      | Inr a \<Rightarrow> Inr (a\<lparr>path_out := Some q\<rparr>))"
  by (simp add: check_inputs_def bind_e_def split: sum.splits)

lemma check_inputs_no_path:
  "check_inputs lib df ix iy ic PNone ox oy oc = Inr a \<Longrightarrow> path_out a = None"
  by (auto simp: check_inputs_def bind_e_def split: sum.splits)

lemma transform_table_path:
  "transform_table lib p ix iy ic (PStr q) ox oy oc w =
     (case transform_table lib p ix iy ic PNone ox oy oc w of
        (Inl e, w') \<Rightarrow> (Inl e, w')
      | (Inr (g, u), w') \<Rightarrow> (Inr (g, Some q), w'))"
  by (simp add: transform_table_def check_inputs_path bind_io_def lift_io_def raise_io_def
      return_io_def split: prod.splits sum.splits)

lemma transform_table_no_path:
  "transform_table lib p ix iy ic PNone ox oy oc w = (Inr (g, u), w') \<Longrightarrow> u = None"
  by (auto simp: transform_table_def bind_io_def lift_io_def raise_io_def
      return_io_def dest: check_inputs_no_path split: prod.splits sum.splits if_splits)

lemma coordinate_transform_no_path:
  "coordinate_transform lib p ix iy ic PNone ox oy oc w =
     (case transform_table lib p ix iy ic PNone ox oy oc w of
        (Inl e, w') \<Rightarrow> (Inl e, w')
      | (Inr (g, u), w') \<Rightarrow> (Inr g, w'))"
  by (auto simp: coordinate_transform_def bind_io_def save_def return_io_def
      dest: transform_table_no_path split: prod.splits sum.splits)


lemma check_inputs_path_arg:
  "check_inputs lib df ix iy ic out ox oy oc = Inr a \<Longrightarrow> path_arg out = Inr (path_out a)"
  by (auto simp: check_inputs_def bind_e_def split: sum.splits)

lemma transform_table_path_arg:
  "transform_table lib p ix iy ic out ox oy oc w = (Inr (g, u), w0) \<Longrightarrow> path_arg out = Inr u"
  by (auto simp: transform_table_def bind_io_def lift_io_def raise_io_def
      return_io_def dest: check_inputs_path_arg split: prod.splits sum.splits if_splits)

lemma path_arg_Some: "path_arg out = Inr (Some q) \<Longrightarrow> out = PStr q"
  by (cases out) auto

lemma path_arg_None: "path_arg out = Inr None \<Longrightarrow> out = PNone"
  by (cases out) auto

lemma no_write_D:
  assumes "no_write m" and "m w = (r, w')"
  shows "files w' = files w" and "stdin w' = stdin w"
    and "\<exists>evs. log w' = log w @ evs \<and> filter is_write evs = []"
  using assms by (auto simp: no_write_def dest: spec [of _ w])

lemma save_same_path:
  "save g p (Some p) w0 =
     (case stdin w0 of
        [] \<Rightarrow> (Inl EOFError, w0\<lparr>log := log w0 @ [Print overwrite_warning]\<rparr>)
      | l # ls \<Rightarrow>
          if l = ''Y'' then
            (Inr (), w0\<lparr>log := log w0 @ [Print overwrite_warning, Input l, WriteFile p],
                        stdin := ls,
                        files := (files w0)(p := Some (Table (columns g)))\<rparr>)
          else
            (Inl OverwriteDeclinedError,
             w0\<lparr>log := log w0 @ [Print overwrite_warning, Input l], stdin := ls\<rparr>))"
  by (simp add: save_def bind_io_def print_def input_def to_csv_def raise_io_def
      split: list.splits)

lemma coordinate_transform_same_path:
  assumes "coordinate_transform lib p ix iy ic PNone ox oy oc w = (Inr g, w1)"
  shows "coordinate_transform lib p ix iy ic (PStr p) ox oy oc w =
      (case save g p (Some p) w1 of (Inl e, w') \<Rightarrow> (Inl e, w') | (Inr u, w') \<Rightarrow> (Inr g, w'))"
    and "stdin w1 = stdin w" and "files w1 = files w"
proof -
  from assms obtain u where t: "transform_table lib p ix iy ic PNone ox oy oc w = (Inr (g, u), w1)"
    by (auto simp: coordinate_transform_no_path split: prod.splits sum.splits)
  show "stdin w1 = stdin w"
    by (rule no_write_D(2) [OF no_write_transform_table t])
  show "files w1 = files w"
    by (rule no_write_D(1) [OF no_write_transform_table t])
  show "coordinate_transform lib p ix iy ic (PStr p) ox oy oc w =
      (case save g p (Some p) w1 of (Inl e, w') \<Rightarrow> (Inl e, w') | (Inr u, w') \<Rightarrow> (Inr g, w'))"
    using t
    by (simp add: coordinate_transform_def bind_io_def transform_table_path return_io_def
        split: prod.splits sum.splits)
qed

lemma coordinate_transform_same_path_fails:
  assumes "coordinate_transform lib p ix iy ic PNone ox oy oc w = (Inl e, w1)"
  shows "coordinate_transform lib p ix iy ic (PStr p) ox oy oc w = (Inl e, w1)"
proof -
  from assms have "transform_table lib p ix iy ic PNone ox oy oc w = (Inl e, w1)"
    by (auto simp: coordinate_transform_no_path split: prod.splits sum.splits)
  then show ?thesis
    by (simp add: coordinate_transform_def bind_io_def transform_table_path)
qed

lemmas run_defs =
  coordinate_transform_def transform_table_def check_inputs_def save_def
  XYTableToPoint_def Project_def to_crs_def geometry_to_fields_def geometry_coords_def
  table_points_def points_from_xy_def column_of_def get_col_def names_def drop_col_def
  bind_io_def bind_e_def return_io_def raise_io_def lift_io_def require_def
  isfile_def read_csv_def to_csv_def print_def input_def lib_call_def

lemma demo_run_no_path:
  "coordinate_transform demo_lib ''in.csv'' (PStr ''x'') (PStr ''y'') (PInt 4326) PNone
      (PStr ''lon'') (PStr ''lat'') (PInt 3826) (demo_world answers)
   = (Inr \<lparr>columns = [(''x'', NumCol [1, 2]), (''y'', NumCol [3, 4]),
                        (''name'', StrCol [''a'', ''b'']),
                        (''lon'', NumCol [3, 4]), (''lat'', NumCol [1, 2])],
            crs = Some (EPSG 3826)\<rparr>,
      (demo_world answers)\<lparr>log := [IsFile ''in.csv'', ReadFile ''in.csv'']\<rparr>)"
  by (simp add: run_defs demo_lib_def demo_world_def demo_table_def)

lemma demo_run_same_fields:
  "coordinate_transform demo_lib ''in.csv'' (PStr ''x'') (PStr ''x'') (PInt 4326) PNone
      (PStr ''lon'') (PStr ''lat'') (PInt 3826) (demo_world answers)
   = (Inl (ValueError ''in_x_field same as in_y_field''),
      (demo_world answers)\<lparr>log := [IsFile ''in.csv'', ReadFile ''in.csv'']\<rparr>)"
  by (simp add: run_defs demo_lib_def demo_world_def demo_table_def)

text \<open>
  Claim C9. Take a call whose output path is its input path. If the same call without an
  output path fails, this one fails in the same way and neither prints nor asks. If it
  succeeds with a table, this one prints the warning and reads one line of standard input,
  and it writes the table over the input file exactly when that line is \<open>Y\<close>; on any
  other line it writes nothing and raises, and at the end of the input the read raises.
\<close>

theorem overwrite_confirmation:
  "(coordinate_transform lib p ix iy ic PNone ox oy oc w = (Inr g, w1) \<and> stdin w = l # ls
     \<longrightarrow> coordinate_transform lib p ix iy ic (PStr p) ox oy oc w =
          (if l = ''Y'' then
             (Inr g, w1\<lparr>log := log w1 @ [Print overwrite_warning, Input l, WriteFile p],
                        stdin := ls,
                        files := (files w1)(p := Some (Table (columns g)))\<rparr>)
           else
             (Inl OverwriteDeclinedError,
              w1\<lparr>log := log w1 @ [Print overwrite_warning, Input l], stdin := ls\<rparr>)))
   \<and> (coordinate_transform lib p ix iy ic PNone ox oy oc w = (Inr g, w1) \<and> stdin w = []
     \<longrightarrow> coordinate_transform lib p ix iy ic (PStr p) ox oy oc w =
          (Inl EOFError, w1\<lparr>log := log w1 @ [Print overwrite_warning]\<rparr>))
   \<and> (coordinate_transform lib p ix iy ic PNone ox oy oc w = (Inl e, w1)
     \<longrightarrow> coordinate_transform lib p ix iy ic (PStr p) ox oy oc w = (Inl e, w1))"
  using coordinate_transform_same_path [of lib p ix iy ic ox oy oc w g w1]
    coordinate_transform_same_path_fails [of lib p ix iy ic ox oy oc w e w1]
  by (auto simp: save_same_path)

theorem overwrite_confirmation_witness:
  "stdin (demo_world [''Y'']) = [''Y'']
   \<and> coordinate_transform demo_lib ''in.csv'' (PStr ''x'') (PStr ''y'') (PInt 4326)
        (PStr ''in.csv'') (PStr ''lon'') (PStr ''lat'') (PInt 3826) (demo_world [''Y''])
      = (Inr \<lparr>columns = [(''x'', NumCol [1, 2]), (''y'', NumCol [3, 4]),
                        (''name'', StrCol [''a'', ''b'']),
                        (''lon'', NumCol [3, 4]), (''lat'', NumCol [1, 2])],
            crs = Some (EPSG 3826)\<rparr>,
         (demo_world [''Y''])
           \<lparr>log := [IsFile ''in.csv'', ReadFile ''in.csv'', Print overwrite_warning,
                    Input ''Y'', WriteFile ''in.csv''],
            stdin := [],
            files := (files (demo_world [''Y'']))
              (''in.csv'' := Some (Table [(''x'', NumCol [1, 2]), (''y'', NumCol [3, 4]),
                        (''name'', StrCol [''a'', ''b'']),
                        (''lon'', NumCol [3, 4]), (''lat'', NumCol [1, 2])]))\<rparr>)
   \<and> stdin (demo_world [''yes'']) = [''yes'']
   \<and> coordinate_transform demo_lib ''in.csv'' (PStr ''x'') (PStr ''y'') (PInt 4326)
        (PStr ''in.csv'') (PStr ''lon'') (PStr ''lat'') (PInt 3826) (demo_world [''yes''])
      = (Inl OverwriteDeclinedError,
         (demo_world [''yes''])\<lparr>log := [IsFile ''in.csv'', ReadFile ''in.csv'',
                                         Print overwrite_warning, Input ''yes''],
                                stdin := []\<rparr>)
   \<and> stdin (demo_world []) = []
   \<and> coordinate_transform demo_lib ''in.csv'' (PStr ''x'') (PStr ''y'') (PInt 4326)
        (PStr ''in.csv'') (PStr ''lon'') (PStr ''lat'') (PInt 3826) (demo_world [])
      = (Inl EOFError,
         (demo_world [])\<lparr>log := [IsFile ''in.csv'', ReadFile ''in.csv'',
                                  Print overwrite_warning]\<rparr>)
   \<and> coordinate_transform demo_lib ''in.csv'' (PStr ''x'') (PStr ''x'') (PInt 4326)
        (PStr ''in.csv'') (PStr ''lon'') (PStr ''lat'') (PInt 3826) (demo_world [])
      = (Inl (ValueError ''in_x_field same as in_y_field''),
         (demo_world [])\<lparr>log := [IsFile ''in.csv'', ReadFile ''in.csv'']\<rparr>)"
proof -
  have s: "stdin (demo_world [''Y'']) = [''Y'']" "stdin (demo_world [''yes'']) = [''yes'']"
    "stdin (demo_world []) = []"
    by (simp_all add: demo_world_def)
  have n: "''yes'' \<noteq> ''Y''" by simp
  note t = overwrite_confirmation [of demo_lib "''in.csv''" "PStr ''x''" "PStr ''y''"
      "PInt 4326" "PStr ''lon''" "PStr ''lat''" "PInt 3826"]
  from t [of "demo_world [''Y'']" _ _ "''Y''" "[]"] demo_run_no_path [of "[''Y'']"] s
  have a: "coordinate_transform demo_lib ''in.csv'' (PStr ''x'') (PStr ''y'') (PInt 4326)
        (PStr ''in.csv'') (PStr ''lon'') (PStr ''lat'') (PInt 3826) (demo_world [''Y''])
      = (Inr \<lparr>columns = [(''x'', NumCol [1, 2]), (''y'', NumCol [3, 4]),
                        (''name'', StrCol [''a'', ''b'']),
                        (''lon'', NumCol [3, 4]), (''lat'', NumCol [1, 2])],
            crs = Some (EPSG 3826)\<rparr>,
         (demo_world [''Y''])
           \<lparr>log := [IsFile ''in.csv'', ReadFile ''in.csv'', Print overwrite_warning,
                    Input ''Y'', WriteFile ''in.csv''],
            stdin := [],
            files := (files (demo_world [''Y'']))
              (''in.csv'' := Some (Table [(''x'', NumCol [1, 2]), (''y'', NumCol [3, 4]),
                        (''name'', StrCol [''a'', ''b'']),
                        (''lon'', NumCol [3, 4]), (''lat'', NumCol [1, 2])]))\<rparr>)"
    by simp
  from t [of "demo_world [''yes'']" _ _ "''yes''" "[]"] demo_run_no_path [of "[''yes'']"] s n
  have b: "coordinate_transform demo_lib ''in.csv'' (PStr ''x'') (PStr ''y'') (PInt 4326)
        (PStr ''in.csv'') (PStr ''lon'') (PStr ''lat'') (PInt 3826) (demo_world [''yes''])
      = (Inl OverwriteDeclinedError,
         (demo_world [''yes''])\<lparr>log := [IsFile ''in.csv'', ReadFile ''in.csv'',
                                         Print overwrite_warning, Input ''yes''],
                                stdin := []\<rparr>)"
    by simp
  from t [of "demo_world []"] demo_run_no_path [of "[]"] s
  have c: "coordinate_transform demo_lib ''in.csv'' (PStr ''x'') (PStr ''y'') (PInt 4326)
        (PStr ''in.csv'') (PStr ''lon'') (PStr ''lat'') (PInt 3826) (demo_world [])
      = (Inl EOFError,
         (demo_world [])\<lparr>log := [IsFile ''in.csv'', ReadFile ''in.csv'',
                                  Print overwrite_warning]\<rparr>)"
    by simp
  from overwrite_confirmation [of demo_lib "''in.csv''" "PStr ''x''" "PStr ''x''"
      "PInt 4326" "PStr ''lon''" "PStr ''lat''" "PInt 3826" "demo_world []"]
    demo_run_same_fields [of "[]"]
  have d: "coordinate_transform demo_lib ''in.csv'' (PStr ''x'') (PStr ''x'') (PInt 4326)
        (PStr ''in.csv'') (PStr ''lon'') (PStr ''lat'') (PInt 3826) (demo_world [])
      = (Inl (ValueError ''in_x_field same as in_y_field''),
         (demo_world [])\<lparr>log := [IsFile ''in.csv'', ReadFile ''in.csv'']\<rparr>)"
    by simp
  show ?thesis using a b c d s by simp
qed

text \<open>
  Claim C1, as the code has it. When the output path is the input path and the line read
  is not \<open>Y\<close>, the call ends with the "not overwritten" exception in place of a result:
  the table that was computed is not returned. No file has changed and the trace holds no
  write.
\<close>

theorem overwrite_declined:
  assumes "coordinate_transform lib p ix iy ic PNone ox oy oc w = (Inr g, w1)"
    and "stdin w = l # ls" and "l \<noteq> ''Y''"
  shows "coordinate_transform lib p ix iy ic (PStr p) ox oy oc w =
           (Inl OverwriteDeclinedError,
            w1\<lparr>log := log w1 @ [Print overwrite_warning, Input l], stdin := ls\<rparr>)
         \<and> files w1 = files w
         \<and> filter is_write (log w1 @ [Print overwrite_warning, Input l])
             = filter is_write (log w1)"
  using coordinate_transform_same_path [OF assms(1)] assms(2,3)
  by (simp add: save_same_path)

theorem overwrite_declined_witness:
  "coordinate_transform demo_lib ''in.csv'' (PStr ''x'') (PStr ''y'') (PInt 4326) PNone
      (PStr ''lon'') (PStr ''lat'') (PInt 3826) (demo_world [''n''])
   = (Inr \<lparr>columns = [(''x'', NumCol [1, 2]), (''y'', NumCol [3, 4]),
                        (''name'', StrCol [''a'', ''b'']),
                        (''lon'', NumCol [3, 4]), (''lat'', NumCol [1, 2])],
            crs = Some (EPSG 3826)\<rparr>,
      (demo_world [''n''])\<lparr>log := [IsFile ''in.csv'', ReadFile ''in.csv'']\<rparr>)
   \<and> stdin (demo_world [''n'']) = [''n''] \<and> ''n'' \<noteq> ''Y''
   \<and> coordinate_transform demo_lib ''in.csv'' (PStr ''x'') (PStr ''y'') (PInt 4326)
        (PStr ''in.csv'') (PStr ''lon'') (PStr ''lat'') (PInt 3826) (demo_world [''n''])
      = (Inl OverwriteDeclinedError,
         (demo_world [''n''])\<lparr>log := [IsFile ''in.csv'', ReadFile ''in.csv'',
                                         Print overwrite_warning, Input ''n''],
                                stdin := []\<rparr>)"
proof -
  have s: "stdin (demo_world [''n'']) = [''n'']" by (simp add: demo_world_def)
  have n: "''n'' \<noteq> ''Y''" by simp
  from overwrite_declined [OF demo_run_no_path s n] demo_run_no_path [of "[''n'']"] s n
  show ?thesis by simp
qed

text \<open>
  Claim C1 as stated fails: with a negative answer the call yields the exception and no
  table.
\<close>

theorem declined_call_returns_no_table:
  "fst (coordinate_transform demo_lib ''in.csv'' (PStr ''x'') (PStr ''y'') (PInt 4326)
        (PStr ''in.csv'') (PStr ''lon'') (PStr ''lat'') (PInt 3826) (demo_world [''n'']))
     = Inl OverwriteDeclinedError
   \<and> isl (fst (coordinate_transform demo_lib ''in.csv'' (PStr ''x'') (PStr ''y'') (PInt 4326)
        (PStr ''in.csv'') (PStr ''lon'') (PStr ''lat'') (PInt 3826) (demo_world [''n''])))"
  by (simp add: run_defs demo_lib_def demo_world_def demo_table_def)

text \<open>
  Claim C2, as the code has it. With the same value for both input fields the call first
  tests that the input path is a file and reads the table, and only then rejects the
  fields: it ends with the error for the missing file when there is no such file, with the
  error of the reader when the file is no table, and otherwise with the error for equal
  fields. Nothing else has happened by then: no CRS is resolved, nothing is printed, asked
  or written.
\<close>

theorem same_input_fields_after_load:
  "ix = iy \<longrightarrow>
   coordinate_transform lib p ix iy ic out ox oy oc w =
     (case files w p of
        None \<Rightarrow>
          (Inl (ValueError ''in_table_path does not exist.''), w\<lparr>log := log w @ [IsFile p]\<rparr>)
      | Some (Table df) \<Rightarrow>
          (Inl (ValueError ''in_x_field same as in_y_field''),
           w\<lparr>log := log w @ [IsFile p, ReadFile p]\<rparr>)
      | Some _ \<Rightarrow> (Inl ParserError, w\<lparr>log := log w @ [IsFile p, ReadFile p]\<rparr>))"
  by (simp add: coordinate_transform_def transform_table_def check_inputs_def bind_io_def
      bind_e_def require_def isfile_def read_csv_def raise_io_def lift_io_def
      split: option.splits content.splits)

theorem same_input_fields_after_load_witness:
  "coordinate_transform demo_lib ''in.csv'' (PStr ''x'') (PStr ''x'') (PInt 4326)
      (PStr ''out.csv'') (PStr ''lon'') (PStr ''lat'') (PInt 3826) (demo_world [])
   = (Inl (ValueError ''in_x_field same as in_y_field''),
      (demo_world [])\<lparr>log := [IsFile ''in.csv'', ReadFile ''in.csv'']\<rparr>)"
  using same_input_fields_after_load [of "PStr ''x''" "PStr ''x''" demo_lib "''in.csv''"
      "PInt 4326" "PStr ''out.csv''" "PStr ''lon''" "PStr ''lat''" "PInt 3826" "demo_world []"]
  by (simp add: demo_world_def)

text \<open>
  Claim C2 as stated fails: the equal fields are rejected after the input file has been
  tested and read, and for a missing input file the error is the one for the path.
\<close>

theorem same_input_fields_file_io_first:
  "fst (coordinate_transform demo_lib ''in.csv'' (PStr ''x'') (PStr ''x'') (PInt 4326)
      PNone (PStr ''lon'') (PStr ''lat'') (PInt 3826) (demo_world []))
     = Inl (ValueError ''in_x_field same as in_y_field'')
   \<and> log (snd (coordinate_transform demo_lib ''in.csv'' (PStr ''x'') (PStr ''x'') (PInt 4326)
      PNone (PStr ''lon'') (PStr ''lat'') (PInt 3826) (demo_world [])))
     = [IsFile ''in.csv'', ReadFile ''in.csv'']
   \<and> list_all is_file_io [IsFile ''in.csv'', ReadFile ''in.csv'']
   \<and> fst (coordinate_transform demo_lib ''missing.csv'' (PStr ''x'') (PStr ''x'') (PInt 4326)
      PNone (PStr ''lon'') (PStr ''lat'') (PInt 3826) (demo_world []))
     = Inl (ValueError ''in_table_path does not exist.'')"
  by (simp add: run_defs demo_lib_def demo_world_def demo_table_def)

lemma save_effect:
  assumes "save g p u w0 = (r1, w')"
  shows "\<exists>evs. log w' = log w0 @ evs
      \<and> (filter is_write evs = [] \<and> files w' = files w0
          \<or> (\<exists>q. r1 = Inr () \<and> u = Some q \<and> evs \<noteq> [] \<and> last evs = WriteFile q
                \<and> filter is_write evs = [WriteFile q]
                \<and> files w' = (files w0)(q := Some (Table (columns g)))))
      \<and> (isl r1 \<longrightarrow> filter is_write evs = [] \<and> files w' = files w0)
      \<and> (u = None \<longrightarrow> filter is_write evs = [] \<and> files w' = files w0)"
proof (cases u)
  case None
  with assms show ?thesis by (auto simp: save_def return_io_def)
next
  case (Some q)
  show ?thesis
  proof (cases "q = p")
    case False
    with Some assms have "r1 = Inr ()"
      "w' = w0\<lparr>files := (files w0)(q := Some (Table (columns g))),
                log := log w0 @ [WriteFile q]\<rparr>"
      by (auto simp: save_def to_csv_def)
    with Some show ?thesis by (auto intro!: exI [of _ "[WriteFile q]"])
  next
    case True
    show ?thesis
    proof (cases "stdin w0")
      case Nil
      with True Some assms show ?thesis
        by (auto simp: save_same_path intro!: exI [of _ "[Print overwrite_warning]"])
    next
      case (Cons l ls)
      show ?thesis
      proof (cases "l = ''Y''")
        case y: True
        with Cons True Some assms show ?thesis
          by (auto simp: save_same_path
              intro!: exI [of _ "[Print overwrite_warning, Input l, WriteFile p]"])
      next
        case n: False
        with Cons True Some assms show ?thesis
          by (auto simp: save_same_path OverwriteDeclinedError_def
              intro!: exI [of _ "[Print overwrite_warning, Input l]"])
      qed
    qed
  qed
qed

lemma demo_run_out:
  "coordinate_transform demo_lib ''in.csv'' (PStr ''x'') (PStr ''y'') (PInt 4326)
      (PStr ''out.csv'') (PStr ''lon'') (PStr ''lat'') (PInt 3826) (demo_world [])
   = (Inr \<lparr>columns = [(''x'', NumCol [1, 2]), (''y'', NumCol [3, 4]),
                        (''name'', StrCol [''a'', ''b'']),
                        (''lon'', NumCol [3, 4]), (''lat'', NumCol [1, 2])],
            crs = Some (EPSG 3826)\<rparr>,
      (demo_world [])
        \<lparr>log := [IsFile ''in.csv'', ReadFile ''in.csv'', WriteFile ''out.csv''],
         files := (files (demo_world []))
           (''out.csv'' := Some (Table [(''x'', NumCol [1, 2]), (''y'', NumCol [3, 4]),
                        (''name'', StrCol [''a'', ''b'']),
                        (''lon'', NumCol [3, 4]), (''lat'', NumCol [1, 2])]))\<rparr>)"
  by (simp add: run_defs demo_lib_def demo_world_def demo_table_def)

text \<open>
  Claim C8. The part of the pipeline before the block that saves writes nothing. A call
  either writes nothing and leaves every file as it was, or it succeeds and its last act is
  the one write of the returned table to the output path. So a call that fails has written
  nothing, and so has a call with no output path.
\<close>

theorem no_partial_output:
  "no_write (transform_table lib p ix iy ic out ox oy oc)
   \<and> (coordinate_transform lib p ix iy ic out ox oy oc w = (r, w') \<longrightarrow>
       (\<exists>evs. log w' = log w @ evs
          \<and> (filter is_write evs = [] \<and> files w' = files w
              \<or> (\<exists>g q. r = Inr g \<and> out = PStr q \<and> evs \<noteq> [] \<and> last evs = WriteFile q
                    \<and> filter is_write evs = [WriteFile q]
                    \<and> files w' = (files w)(q := Some (Table (columns g)))))
          \<and> (isl r \<longrightarrow> filter is_write evs = [] \<and> files w' = files w)
          \<and> (out = PNone \<longrightarrow> filter is_write evs = [] \<and> files w' = files w)))"
proof (intro conjI impI)
  show "no_write (transform_table lib p ix iy ic out ox oy oc)"
    by (rule no_write_transform_table)
next
  assume run: "coordinate_transform lib p ix iy ic out ox oy oc w = (r, w')"
  obtain r0 w0 where t: "transform_table lib p ix iy ic out ox oy oc w = (r0, w0)"
    by (cases "transform_table lib p ix iy ic out ox oy oc w")
  from no_write_D [OF no_write_transform_table t]
  obtain evs0 where w0: "files w0 = files w" "log w0 = log w @ evs0" "filter is_write evs0 = []"
    by blast
  show "\<exists>evs. log w' = log w @ evs
          \<and> (filter is_write evs = [] \<and> files w' = files w
              \<or> (\<exists>g q. r = Inr g \<and> out = PStr q \<and> evs \<noteq> [] \<and> last evs = WriteFile q
                    \<and> filter is_write evs = [WriteFile q]
                    \<and> files w' = (files w)(q := Some (Table (columns g)))))
          \<and> (isl r \<longrightarrow> filter is_write evs = [] \<and> files w' = files w)
          \<and> (out = PNone \<longrightarrow> filter is_write evs = [] \<and> files w' = files w)"
  proof (cases r0)
    case (Inl e)
    with run t have "r = Inl e" "w' = w0"
      by (auto simp: coordinate_transform_def bind_io_def)
    with w0 show ?thesis by (auto intro!: exI [of _ evs0])
  next
    case (Inr gu)
    obtain g u where gu: "gu = (g, u)" by (cases gu)
    obtain r1 w1 where s: "save g p u w0 = (r1, w1)" by (cases "save g p u w0")
    from run t Inr gu s have res: "w' = w1" "r = (case r1 of Inl e \<Rightarrow> Inl e | Inr x \<Rightarrow> Inr g)"
      by (auto simp: coordinate_transform_def bind_io_def return_io_def split: sum.splits)
    from t Inr gu have pa: "path_arg out = Inr u"
      using transform_table_path_arg by blast
    from save_effect [OF s] obtain evs1 where e1: "log w1 = log w0 @ evs1"
      and d: "filter is_write evs1 = [] \<and> files w1 = files w0
          \<or> (\<exists>q. r1 = Inr () \<and> u = Some q \<and> evs1 \<noteq> [] \<and> last evs1 = WriteFile q
                \<and> filter is_write evs1 = [WriteFile q]
                \<and> files w1 = (files w0)(q := Some (Table (columns g))))"
      and f: "isl r1 \<longrightarrow> filter is_write evs1 = [] \<and> files w1 = files w0"
      and n: "u = None \<longrightarrow> filter is_write evs1 = [] \<and> files w1 = files w0"
      by blast
    have l: "log w' = log w @ (evs0 @ evs1)" using res e1 w0 by simp
    have a: "filter is_write (evs0 @ evs1) = [] \<and> files w' = files w
              \<or> (\<exists>g q. r = Inr g \<and> out = PStr q \<and> evs0 @ evs1 \<noteq> []
                    \<and> last (evs0 @ evs1) = WriteFile q
                    \<and> filter is_write (evs0 @ evs1) = [WriteFile q]
                    \<and> files w' = (files w)(q := Some (Table (columns g))))"
      using d
    proof
      assume "filter is_write evs1 = [] \<and> files w1 = files w0"
      then show ?thesis using w0 res by simp
    next
      assume "\<exists>q. r1 = Inr () \<and> u = Some q \<and> evs1 \<noteq> [] \<and> last evs1 = WriteFile q
                \<and> filter is_write evs1 = [WriteFile q]
                \<and> files w1 = (files w0)(q := Some (Table (columns g)))"
      then obtain q where q: "r1 = Inr ()" "u = Some q" "evs1 \<noteq> []" "last evs1 = WriteFile q"
        "filter is_write evs1 = [WriteFile q]"
        "files w1 = (files w0)(q := Some (Table (columns g)))" by blast
      from pa q(2) have "out = PStr q" by (simp add: path_arg_Some)
      with q w0 res show ?thesis by auto
    qed
    have b: "isl r \<longrightarrow> filter is_write (evs0 @ evs1) = [] \<and> files w' = files w"
      using f res w0 by (cases r1) auto
    have c: "out = PNone \<longrightarrow> filter is_write (evs0 @ evs1) = [] \<and> files w' = files w"
      using n pa res w0 by auto
    from l a b c show ?thesis by blast
  qed
qed

theorem no_partial_output_witness:
  "coordinate_transform demo_lib ''in.csv'' (PStr ''x'') (PStr ''x'') (PInt 4326) PNone
      (PStr ''lon'') (PStr ''lat'') (PInt 3826) (demo_world [])
   = (Inl (ValueError ''in_x_field same as in_y_field''),
      (demo_world [])\<lparr>log := [IsFile ''in.csv'', ReadFile ''in.csv'']\<rparr>)
   \<and> isl (Inl (ValueError ''in_x_field same as in_y_field'') :: error + demo_crs gdf)
   \<and> (\<exists>evs. log ((demo_world [])\<lparr>log := [IsFile ''in.csv'', ReadFile ''in.csv'']\<rparr>)
               = log (demo_world []) @ evs
          \<and> filter is_write evs = []
          \<and> files ((demo_world [])\<lparr>log := [IsFile ''in.csv'', ReadFile ''in.csv'']\<rparr>)
               = files (demo_world []))
   \<and> (\<exists>evs. [IsFile ''in.csv'', ReadFile ''in.csv'', WriteFile ''out.csv'']
               = log (demo_world []) @ evs
          \<and> last evs = WriteFile ''out.csv'' \<and> filter is_write evs = [WriteFile ''out.csv''])"
proof -
  from no_partial_output [of demo_lib "''in.csv''" "PStr ''x''" "PStr ''x''" "PInt 4326" PNone
      "PStr ''lon''" "PStr ''lat''" "PInt 3826" "demo_world []"
      "Inl (ValueError ''in_x_field same as in_y_field'')"
      "(demo_world [])\<lparr>log := [IsFile ''in.csv'', ReadFile ''in.csv'']\<rparr>"]
    demo_run_same_fields [of "[]"]
  have a: "\<exists>evs. log ((demo_world [])\<lparr>log := [IsFile ''in.csv'', ReadFile ''in.csv'']\<rparr>)
               = log (demo_world []) @ evs
          \<and> filter is_write evs = []
          \<and> files ((demo_world [])\<lparr>log := [IsFile ''in.csv'', ReadFile ''in.csv'']\<rparr>)
               = files (demo_world [])"
    by auto
  from no_partial_output [of demo_lib "''in.csv''" "PStr ''x''" "PStr ''y''" "PInt 4326"
      "PStr ''out.csv''" "PStr ''lon''" "PStr ''lat''" "PInt 3826" "demo_world []"]
    demo_run_out
  have b: "\<exists>evs. [IsFile ''in.csv'', ReadFile ''in.csv'', WriteFile ''out.csv'']
               = log (demo_world []) @ evs
          \<and> last evs = WriteFile ''out.csv'' \<and> filter is_write evs = [WriteFile ''out.csv'']"
    by (simp add: demo_world_def)
  from a b demo_run_same_fields [of "[]"] show ?thesis by simp
qed

section \<open>The columns of the result\<close>

lemma names_set_col:
  "names (set_col f n c) = (if n \<in> set (names f) then names f else names f @ [n])"
  by (induction f n c rule: set_col.induct) (auto simp: names_def)

lemma names_drop: "names (filter (\<lambda>(m, c). m \<noteq> n) f) = filter (\<lambda>m. m \<noteq> n) (names f)"
  by (induction f) (auto simp: names_def)

lemma get_col_set_col_other: "m \<noteq> n \<Longrightarrow> get_col (set_col f n c) m = get_col f m"
  by (induction f n c rule: set_col.induct) (auto simp: get_col_def)

lemma get_col_drop_other: "m \<noteq> n \<Longrightarrow> get_col (filter (\<lambda>(k, c). k \<noteq> n) f) m = get_col f m"
  by (induction f) (auto simp: get_col_def)

lemma get_col_drop_same: "get_col (filter (\<lambda>(k, c). k \<noteq> n) f) n = None"
  by (induction f) (auto simp: get_col_def)

lemma set_col_same: "get_col f n = Some c \<Longrightarrow> set_col f n c = f"
  by (induction f n c rule: set_col.induct) (auto simp: get_col_def split: if_splits)

lemma set_set_col: "set (set_col f n c) \<subseteq> insert (n, c) (set f)"
  by (induction f n c rule: set_col.induct) auto

lemma get_col_in_set: "get_col f n = Some c \<Longrightarrow> (n, c) \<in> set f"
  by (simp add: get_col_def map_of_SomeD)

lemma get_col_names: "get_col f n = Some c \<Longrightarrow> n \<in> set (names f)"
  by (auto simp: names_def dest!: get_col_in_set intro: rev_image_eqI)

lemma nrows_uniform:
  assumes "f \<noteq> []" and "\<forall>(n, c)\<in>set f. col_len c = k"
  shows "nrows f = k"
  using assms by (cases f) (auto simp: nrows_def)

lemma wf_frame_col_len: "wf_frame f \<Longrightarrow> get_col f n = Some c \<Longrightarrow> col_len c = nrows f"
  by (auto simp: wf_frame_def list_all_iff dest!: get_col_in_set)

lemma as_floats_Inr: "as_floats c = Inr xs \<Longrightarrow> c = NumCol xs"
  by (cases c) auto

lemma table_points_length:
  assumes "table_points df x y None = Inr pts" and "wf_frame df"
  shows "length pts = nrows df"
proof -
  from assms(1) obtain xs ys where c: "get_col df x = Some (NumCol xs)"
    "get_col df y = Some (NumCol ys)" and p: "pts = map (\<lambda>(a, b). Point a b None) (zip xs ys)"
    by (auto simp: table_points_def points_from_xy_def bind_e_def column_of_def
        split: sum.splits option.splits dest!: as_floats_Inr)
  from c assms(2) have "length xs = nrows df" "length ys = nrows df"
    using wf_frame_col_len by fastforce+
  with p show ?thesis by simp
qed

lemma tagged_columns:
  assumes "(let gdf = \<lparr>columns = f, crs = None\<rparr> in
            case cs of
              PNone \<Rightarrow> return_io gdf
            | _ \<Rightarrow> bind_io (lift_io (parse_crs lib cs)) (\<lambda>c. return_io (gdf\<lparr>crs := c\<rparr>))) w
           = (Inr g, w1)"
  shows "columns g = f"
  using assms
  by (cases cs) (auto simp: bind_io_lift return_io_def split: sum.splits)

lemma saved_same:
  assumes "(case out of
              OutPath p \<Rightarrow> bind_io (to_file gdf p) (\<lambda>u. return_io gdf)
            | OutNone \<Rightarrow> return_io gdf
            | OutInvalid \<Rightarrow> raise_io e) w = (Inr g, w1)"
  shows "g = gdf"
  using assms
  by (cases out) (auto simp: bind_io_def to_file_def return_io_def raise_io_def)

lemma XYTableToPoint_columns:
  assumes "XYTableToPoint lib (TableFrame df) out x y z cs w = (Inr g0, w')"
  shows "\<exists>pts. table_points df x y z = Inr pts
          \<and> columns g0 = set_col df ''geometry'' (GeoCol pts)"
proof -
  from assms obtain pts gdf wt where p: "table_points df x y z = Inr pts"
    and t: "(let gdf = \<lparr>columns = set_col df ''geometry'' (GeoCol pts), crs = None\<rparr> in
            case cs of
              PNone \<Rightarrow> return_io gdf
            | _ \<Rightarrow> bind_io (lift_io (parse_crs lib cs)) (\<lambda>c. return_io (gdf\<lparr>crs := c\<rparr>))) w
           = (Inr gdf, wt)"
    and o: "(case out of
              OutPath p \<Rightarrow> bind_io (to_file gdf p) (\<lambda>u. return_io gdf)
            | OutNone \<Rightarrow> return_io gdf
            | OutInvalid \<Rightarrow>
                raise_io (ValueError ''Invalid output feature class. It must be a path to a shapefile.''))
           wt = (Inr g0, w')"
  proof -
    from assms that show ?thesis
      by (simp add: XYTableToPoint_def bind_io_simps)
         (auto simp: bind_io_Inr raise_io_def lift_io_def split: if_splits)
  qed
  from saved_same [OF o] tagged_columns [OF t] p show ?thesis by simp
qed

lemma Project_columns:
  assumes "Project lib (DatasetFrame g0) OutNone t w = (Inr g1, w')"
    and "get_col (columns g0) ''geometry'' = Some (GeoCol pts)"
  shows "\<exists>pts'. length pts' = length pts
          \<and> columns g1 = set_col (columns g0) ''geometry'' (GeoCol pts')
          \<and> (pts' = pts \<or> (\<exists>src dst. pts' = map (transform lib src dst) pts))"
proof (cases "t = PNone")
  case True
  with assms have "g1 = g0"
    by (simp add: Project_def bind_io_def return_io_def print_def)
  with assms(2) show ?thesis
    by (auto simp: set_col_same intro!: exI [of _ pts])
next
  case False
  then have "Project lib (DatasetFrame g0) OutNone t w =
      bind_io (bind_io (lift_io (parse_crs lib t)) (\<lambda>c. lift_io (to_crs lib g0 c))) return_io w"
    by (cases t) (simp_all add: Project_def bind_io_simps)
  with assms(1) obtain c where "to_crs lib g0 c = Inr g1"
    by (auto simp: bind_io_def lift_io_def return_io_def split: sum.splits prod.splits)
  with assms(2) obtain src dst where
    "columns g1 = set_col (columns g0) ''geometry'' (GeoCol (map (transform lib src dst) pts))"
    by (auto simp: to_crs_def split: option.splits)
  then show ?thesis
    by (intro exI [of _ "map (transform lib src dst) pts"]) auto
qed

lemma geometry_to_fields_columns:
  assumes "geometry_to_fields g1 ox oy = Inr g"
    and "get_col (columns g1) ''geometry'' = Some (GeoCol pts)"
  shows "ox \<noteq> ''geometry''"
    and "columns g = filter (\<lambda>(m, c). m \<noteq> ''geometry'')
           (set_col (set_col (columns g1) ox (NumCol (map px pts))) oy (NumCol (map py pts)))"
proof -
  show ox: "ox \<noteq> ''geometry''"
  proof
    assume "ox = ''geometry''"
    with assms show False
      by (simp add: geometry_to_fields_def geometry_coords_def bind_e_def get_col_set_col)
  qed
  then have "get_col (set_col (columns g1) ox (NumCol (map px pts))) ''geometry''
      = Some (GeoCol pts)"
    using assms(2) by (simp add: get_col_set_col_other)
  with assms show "columns g = filter (\<lambda>(m, c). m \<noteq> ''geometry'')
           (set_col (set_col (columns g1) ox (NumCol (map px pts))) oy (NumCol (map py pts)))"
    by (auto simp: geometry_to_fields_def geometry_coords_def bind_e_def drop_col_def Let_def
        split: if_splits)
qed

lemma geometry_to_fields_no_geometry:
  assumes "geometry_to_fields g1 ox oy = Inr g"
  shows "''geometry'' \<notin> set (names (columns g))"
  using assms
  by (auto simp: geometry_to_fields_def bind_e_def drop_col_def Let_def names_drop
      split: sum.splits if_splits)

lemma check_inputs_fields:
  assumes "check_inputs lib df (PStr x) (PStr y) ic out (PStr ox) (PStr oy) oc = Inr a"
  shows "x_in a = x" "y_in a = y" "x_out a = ox" "y_out a = oy" "ox \<noteq> oy"
    "x \<in> set (names df)"
  using assms
  by (auto simp: check_inputs_def bind_e_def require_def split: sum.splits if_splits)

lemma coordinate_transform_success:
  assumes "coordinate_transform lib p ix iy ic out ox oy oc w = (Inr g, w')"
  shows "\<exists>df a g0 g1 wa wa' wb wb'. files w p = Some (Table df)
     \<and> check_inputs lib df ix iy ic out ox oy oc = Inr a
     \<and> XYTableToPoint lib (TableFrame df) OutNone (x_in a) (y_in a) None (crs_arg (crs_in a)) wa
         = (Inr g0, wa')
     \<and> Project lib (DatasetFrame g0) OutNone (crs_arg (crs_out a)) wb = (Inr g1, wb')
     \<and> geometry_to_fields g1 (x_out a) (y_out a) = Inr g"
proof -
  from assms obtain u w1 where t: "transform_table lib p ix iy ic out ox oy oc w = (Inr (g, u), w1)"
    by (auto simp: coordinate_transform_def bind_io_Inr return_io_def)
  then obtain b wi where i: "isfile p w = (Inr b, wi)" and b: b
    and rest: "bind_io (read_csv p) (\<lambda>df.
         bind_io (lift_io (check_inputs lib df ix iy ic out ox oy oc)) (\<lambda>a.
         bind_io (XYTableToPoint lib (TableFrame df) OutNone (x_in a) (y_in a) None
                    (crs_arg (crs_in a))) (\<lambda>df.
         bind_io (Project lib (DatasetFrame df) OutNone (crs_arg (crs_out a))) (\<lambda>df.
         bind_io (lift_io (geometry_to_fields df (x_out a) (y_out a))) (\<lambda>df.
           return_io (df, path_out a)))))) wi = (Inr (g, u), w1)"
    by (auto simp: transform_table_def bind_io_Inr raise_io_def split: if_splits)
  from rest obtain df wr a wc g0 wx g1 wp where
    r: "read_csv p wi = (Inr df, wr)"
    and c: "check_inputs lib df ix iy ic out ox oy oc = Inr a"
    and x: "XYTableToPoint lib (TableFrame df) OutNone (x_in a) (y_in a) None
                    (crs_arg (crs_in a)) wc = (Inr g0, wx)"
    and pr: "Project lib (DatasetFrame g0) OutNone (crs_arg (crs_out a)) wx = (Inr g1, wp)"
    and gf: "geometry_to_fields g1 (x_out a) (y_out a) = Inr g"
    by (auto simp: bind_io_Inr lift_io_def return_io_def)
  from i have "files wi = files w" by (auto simp: isfile_def)
  with r have "files w p = Some (Table df)"
    by (auto simp: read_csv_def split: option.splits content.splits)
  with c x pr gf show ?thesis by blast
qed


lemma flattened_frame:
  fixes G :: string
  assumes d: "distinct (names df)" and k: "\<forall>(n, c)\<in>set df. col_len c = k"
    and ne: "ox \<noteq> oy" "ox \<noteq> G" "oy \<noteq> G"
    and lx: "col_len X = k" and ly: "col_len Y = k" and lg: "col_len P = k" "col_len Q = k"
    and F: "F = filter (\<lambda>(m, c). m \<noteq> G)
                 (set_col (set_col (set_col (set_col df G P) G Q) ox X) oy Y)"
  shows "names F = filter (\<lambda>n. n \<noteq> G) (names df) @ filter (\<lambda>n. n \<notin> set (names df)) [ox, oy]"
    and "distinct (names F)"
    and "\<forall>n. n \<noteq> ox \<and> n \<noteq> oy \<and> n \<noteq> G \<longrightarrow> get_col F n = get_col df n"
    and "get_col F ox = Some X" and "get_col F oy = Some Y"
    and "nrows F = k" and "get_col F G = None"
proof -
  show n: "names F = filter (\<lambda>n. n \<noteq> G) (names df) @ filter (\<lambda>n. n \<notin> set (names df)) [ox, oy]"
    using ne by (auto simp: F names_drop names_set_col)
  show "distinct (names F)"
    using d ne by (auto simp: n)
  show "\<forall>n. n \<noteq> ox \<and> n \<noteq> oy \<and> n \<noteq> G \<longrightarrow> get_col F n = get_col df n"
    by (simp add: F get_col_drop_other get_col_set_col_other)
  show x: "get_col F ox = Some X"
    using ne by (simp add: F get_col_drop_other get_col_set_col_other get_col_set_col)
  show "get_col F oy = Some Y"
    using ne by (simp add: F get_col_drop_other get_col_set_col)
  show "get_col F G = None"
    by (simp add: F get_col_drop_same)
  have "set F \<subseteq> {(oy, Y), (ox, X), (G, Q), (G, P)} \<union> set df"
    using set_set_col [of "set_col (set_col (set_col df G P) G Q) ox X" oy Y]
      set_set_col [of "set_col (set_col df G P) G Q" ox X]
      set_set_col [of "set_col df G P" G Q] set_set_col [of df G P]
    by (auto simp: F)
  then have "\<forall>(n, c)\<in>set F. col_len c = k"
    using k lx ly lg by auto
  moreover have "F \<noteq> []" using x by (auto simp: get_col_def)
  ultimately show "nrows F = k" by (rule nrows_uniform [rotated])
qed

lemma demo_run_collision:
  "coordinate_transform demo_lib ''in.csv'' (PStr ''x'') (PStr ''y'') (PInt 4326) PNone
      (PStr ''x'') (PStr ''lat'') (PInt 3826) (demo_world [])
   = (Inr \<lparr>columns = [(''x'', NumCol [3, 4]), (''y'', NumCol [3, 4]),
                        (''name'', StrCol [''a'', ''b'']), (''lat'', NumCol [1, 2])],
            crs = Some (EPSG 3826)\<rparr>,
      (demo_world [])\<lparr>log := [IsFile ''in.csv'', ReadFile ''in.csv'']\<rparr>)"
  by (simp add: run_defs demo_lib_def demo_world_def demo_table_def)

lemma wf_demo_table: "wf_frame demo_table"
  by (simp add: wf_frame_def demo_table_def names_def nrows_def)

lemma demo_run_geometry:
  "coordinate_transform demo_lib ''geo.csv'' (PStr ''x'') (PStr ''y'') (PInt 4326) PNone
      (PStr ''lon'') (PStr ''lat'') (PInt 3826) (demo_world [])
   = (Inr \<lparr>columns = [(''x'', NumCol [1]), (''y'', NumCol [3]), (''lon'', NumCol [3]),
                        (''lat'', NumCol [1])],
            crs = Some (EPSG 3826)\<rparr>,
      (demo_world [])\<lparr>log := [IsFile ''geo.csv'', ReadFile ''geo.csv'']\<rparr>)"
  by (simp add: run_defs demo_lib_def demo_world_def geometry_table_def)

lemma demo_points_geometry:
  "XYTableToPoint demo_lib (TableFrame geometry_table) OutNone ''x'' ''y'' None PNone
      (demo_world [])
   = (Inr \<lparr>columns = [(''x'', NumCol [1]), (''geometry'', GeoCol [Point 1 3 None]),
                        (''y'', NumCol [3])],
            crs = None\<rparr>, demo_world [])"
  by (simp add: run_defs demo_world_def geometry_table_def)

text \<open>
  Claim C7, as the code has it. Take a successful call on a table with unique column names
  and equally long columns, whose second output field is not called \<open>geometry\<close>. The
  columns of the result are the columns of the input other than \<open>geometry\<close>, in their
  order, followed by those output fields that are new names: an output field that names a
  column of the input is that column, in its place, and no name occurs twice. The two
  output fields hold the first and second coordinates of one point per row, the points
  built from the input fields or their images under the transformation. Every other
  column except \<open>geometry\<close> is as in the input, and the number of rows is the same.
\<close>

theorem output_fields_and_retained_columns:
  assumes run: "coordinate_transform lib p (PStr x) (PStr y) ic out (PStr ox) (PStr oy) oc w
                 = (Inr g, w')"
    and tab: "files w p = Some (Table df)" and wf: "wf_frame df"
    and oy: "oy \<noteq> ''geometry''"
  shows "names (columns g)
           = filter (\<lambda>n. n \<noteq> ''geometry'') (names df)
             @ filter (\<lambda>n. n \<notin> set (names df)) [ox, oy]
       \<and> distinct (names (columns g))
       \<and> (\<forall>n. n \<noteq> ox \<and> n \<noteq> oy \<and> n \<noteq> ''geometry''
              \<longrightarrow> get_col (columns g) n = get_col df n)
       \<and> (\<exists>pts0 pts. table_points df x y None = Inr pts0
              \<and> (pts = pts0 \<or> (\<exists>src dst. pts = map (transform lib src dst) pts0))
              \<and> length pts = nrows df
              \<and> get_col (columns g) ox = Some (NumCol (map px pts))
              \<and> get_col (columns g) oy = Some (NumCol (map py pts)))
       \<and> nrows (columns g) = nrows df
       \<and> get_col (columns g) ''geometry'' = None"
proof -
  from coordinate_transform_success [OF run] tab
  obtain a g0 g1 wa wa' wb wb' where
    c: "check_inputs lib df (PStr x) (PStr y) ic out (PStr ox) (PStr oy) oc = Inr a"
    and xy: "XYTableToPoint lib (TableFrame df) OutNone (x_in a) (y_in a) None
               (crs_arg (crs_in a)) wa = (Inr g0, wa')"
    and pr: "Project lib (DatasetFrame g0) OutNone (crs_arg (crs_out a)) wb = (Inr g1, wb')"
    and gf: "geometry_to_fields g1 (x_out a) (y_out a) = Inr g"
    by auto
  note fs = check_inputs_fields [OF c]
  from XYTableToPoint_columns [OF xy] fs obtain pts0 where
    p0: "table_points df x y None = Inr pts0"
    and g0: "columns g0 = set_col df ''geometry'' (GeoCol pts0)"
    by auto
  from Project_columns [OF pr, of pts0] g0 obtain pts where
    len: "length pts = length pts0"
    and g1: "columns g1 = set_col (set_col df ''geometry'' (GeoCol pts0)) ''geometry'' (GeoCol pts)"
    and rel: "pts = pts0 \<or> (\<exists>src dst. pts = map (transform lib src dst) pts0)"
    by (auto simp: get_col_set_col)
  have gg: "get_col (columns g1) ''geometry'' = Some (GeoCol pts)"
    by (simp add: g1 get_col_set_col)
  from geometry_to_fields_columns [OF gf gg] fs have
    ox: "ox \<noteq> ''geometry''"
    and F: "columns g = filter (\<lambda>(m, c). m \<noteq> ''geometry'')
           (set_col (set_col (set_col (set_col df ''geometry'' (GeoCol pts0)) ''geometry''
              (GeoCol pts)) ox (NumCol (map px pts))) oy (NumCol (map py pts)))"
    by (simp_all add: g1)
  have l0: "length pts0 = nrows df" by (rule table_points_length [OF p0 wf])
  have d: "distinct (names df)" using wf by (simp add: wf_frame_def)
  have k: "\<forall>(n, c)\<in>set df. col_len c = nrows df"
    using wf by (auto simp: wf_frame_def list_all_iff)
  note r = flattened_frame [OF d k fs(5) ox oy _ _ _ _ F]
  have n: "names (columns g)
           = filter (\<lambda>n. n \<noteq> ''geometry'') (names df)
             @ filter (\<lambda>n. n \<notin> set (names df)) [ox, oy]"
    by (rule r(1)) (simp_all add: len l0)
  have di: "distinct (names (columns g))"
    by (rule r(2)) (simp_all add: len l0)
  have ot: "\<forall>n. n \<noteq> ox \<and> n \<noteq> oy \<and> n \<noteq> ''geometry''
              \<longrightarrow> get_col (columns g) n = get_col df n"
    by (rule r(3)) (simp_all add: len l0)
  have cx: "get_col (columns g) ox = Some (NumCol (map px pts))"
    by (rule r(4)) (simp_all add: len l0)
  have cy: "get_col (columns g) oy = Some (NumCol (map py pts))"
    by (rule r(5)) (simp_all add: len l0)
  have nr: "nrows (columns g) = nrows df"
    by (rule r(6)) (simp_all add: len l0)
  have ng: "get_col (columns g) ''geometry'' = None"
    by (rule r(7)) (simp_all add: len l0)
  have lp: "length pts = nrows df" using len l0 by simp
  have ex: "\<exists>pts0 pts. table_points df x y None = Inr pts0
              \<and> (pts = pts0 \<or> (\<exists>src dst. pts = map (transform lib src dst) pts0))
              \<and> length pts = nrows df
              \<and> get_col (columns g) ox = Some (NumCol (map px pts))
              \<and> get_col (columns g) oy = Some (NumCol (map py pts))"
    by (rule exI [of _ pts0], rule exI [of _ pts]) (intro conjI p0 rel lp cx cy)
  show ?thesis by (intro conjI n di ot ex nr ng)
qed

theorem output_fields_and_retained_columns_witness:
  "coordinate_transform demo_lib ''in.csv'' (PStr ''x'') (PStr ''y'') (PInt 4326) PNone
      (PStr ''x'') (PStr ''lat'') (PInt 3826) (demo_world [])
   = (Inr \<lparr>columns = [(''x'', NumCol [3, 4]), (''y'', NumCol [3, 4]),
                        (''name'', StrCol [''a'', ''b'']), (''lat'', NumCol [1, 2])],
            crs = Some (EPSG 3826)\<rparr>,
      (demo_world [])\<lparr>log := [IsFile ''in.csv'', ReadFile ''in.csv'']\<rparr>)
   \<and> files (demo_world []) ''in.csv'' = Some (Table demo_table)
   \<and> wf_frame demo_table
   \<and> ''lat'' \<noteq> ''geometry''
   \<and> names [(''x'', NumCol [3, 4]), (''y'', NumCol [3, 4]),
             (''name'', StrCol [''a'', ''b'']), (''lat'', NumCol [1, 2])]
       = filter (\<lambda>n. n \<noteq> ''geometry'') (names demo_table)
         @ filter (\<lambda>n. n \<notin> set (names demo_table)) [''x'', ''lat'']
   \<and> get_col [(''x'', NumCol [3, 4]), (''y'', NumCol [3, 4]),
             (''name'', StrCol [''a'', ''b'']), (''lat'', NumCol [1, 2])] ''name''
       = get_col demo_table ''name''
   \<and> nrows [(''x'', NumCol [3, 4]), (''y'', NumCol [3, 4]),
             (''name'', StrCol [''a'', ''b'']), (''lat'', NumCol [1, 2])]
       = nrows demo_table"
proof -
  have f: "files (demo_world []) ''in.csv'' = Some (Table demo_table)"
    by (simp add: demo_world_def)
  have n: "''lat'' \<noteq> ''geometry''" by simp
  from output_fields_and_retained_columns [OF demo_run_collision f wf_demo_table n]
    demo_run_collision f wf_demo_table n
  show ?thesis by simp
qed

text \<open>
  Claim C7 as stated fails: an input column called \<open>geometry\<close>, which is neither output
  field, is not in the result.
\<close>

theorem geometry_column_not_retained:
  "fst (coordinate_transform demo_lib ''geo.csv'' (PStr ''x'') (PStr ''y'') (PInt 4326) PNone
      (PStr ''x'') (PStr ''lat'') (PInt 3826) (demo_world []))
     = Inr \<lparr>columns = [(''x'', NumCol [3]), (''y'', NumCol [3]), (''lat'', NumCol [1])],
            crs = Some (EPSG 3826)\<rparr>
   \<and> get_col geometry_table ''geometry'' = Some (StrCol [''p''])
   \<and> get_col [(''x'', NumCol [3]), (''y'', NumCol [3]), (''lat'', NumCol [1])] ''geometry''
       = None"
  by (simp add: run_defs demo_lib_def demo_world_def geometry_table_def)

text \<open>
  Claim C10. The table a successful call returns has no column called \<open>geometry\<close>.
  \<open>XYTableToPoint\<close> puts the points it builds into the column of that name, over
  whatever the input table had there, and the pipeline drops the column at the end.
\<close>

theorem geometry_name_reserved:
  "(coordinate_transform lib p ix iy ic out ox oy oc w = (Inr g, w')
      \<longrightarrow> ''geometry'' \<notin> set (names (columns g))
          \<and> get_col (columns g) ''geometry'' = None)
   \<and> (XYTableToPoint lib (TableFrame df) fc x y z cs w = (Inr g0, w0)
      \<longrightarrow> (\<exists>pts. table_points df x y z = Inr pts
             \<and> get_col (columns g0) ''geometry'' = Some (GeoCol pts)))"
proof (intro conjI impI)
  assume "coordinate_transform lib p ix iy ic out ox oy oc w = (Inr g, w')"
  from coordinate_transform_success [OF this] obtain g1 fx fy where
    "geometry_to_fields g1 fx fy = Inr g" by auto
  then show "''geometry'' \<notin> set (names (columns g))"
    by (rule geometry_to_fields_no_geometry)
  then show "get_col (columns g) ''geometry'' = None"
    by (simp add: get_col_def names_def map_of_eq_None_iff)
next
  assume "XYTableToPoint lib (TableFrame df) fc x y z cs w = (Inr g0, w0)"
  from XYTableToPoint_columns [OF this]
  show "\<exists>pts. table_points df x y z = Inr pts
          \<and> get_col (columns g0) ''geometry'' = Some (GeoCol pts)"
    by (auto simp: get_col_set_col)
qed

theorem geometry_name_reserved_witness:
  "coordinate_transform demo_lib ''geo.csv'' (PStr ''x'') (PStr ''y'') (PInt 4326) PNone
      (PStr ''lon'') (PStr ''lat'') (PInt 3826) (demo_world [])
   = (Inr \<lparr>columns = [(''x'', NumCol [1]), (''y'', NumCol [3]), (''lon'', NumCol [3]),
                        (''lat'', NumCol [1])],
            crs = Some (EPSG 3826)\<rparr>,
      (demo_world [])\<lparr>log := [IsFile ''geo.csv'', ReadFile ''geo.csv'']\<rparr>)
   \<and> ''geometry'' \<notin> set (names [(''x'', NumCol [1]), (''y'', NumCol [3]),
                                    (''lon'', NumCol [3]), (''lat'', NumCol [1])])
   \<and> get_col geometry_table ''geometry'' = Some (StrCol [''p''])
   \<and> XYTableToPoint demo_lib (TableFrame geometry_table) OutNone ''x'' ''y'' None PNone
        (demo_world [])
      = (Inr \<lparr>columns = [(''x'', NumCol [1]), (''geometry'', GeoCol [Point 1 3 None]),
                        (''y'', NumCol [3])],
            crs = None\<rparr>, demo_world [])
   \<and> (\<exists>pts. table_points geometry_table ''x'' ''y'' None = Inr pts
          \<and> get_col [(''x'', NumCol [1]), (''geometry'', GeoCol [Point 1 3 None]),
                      (''y'', NumCol [3])] ''geometry'' = Some (GeoCol pts))"
proof -
  have o: "get_col geometry_table ''geometry'' = Some (StrCol [''p''])"
    by (simp add: get_col_def geometry_table_def)
  from geometry_name_reserved [of demo_lib "''geo.csv''" "PStr ''x''" "PStr ''y''" "PInt 4326"
      PNone "PStr ''lon''" "PStr ''lat''" "PInt 3826" "demo_world []"
      "\<lparr>columns = [(''x'', NumCol [1]), (''y'', NumCol [3]), (''lon'', NumCol [3]),
                        (''lat'', NumCol [1])], crs = Some (EPSG 3826)\<rparr>"
      "(demo_world [])\<lparr>log := [IsFile ''geo.csv'', ReadFile ''geo.csv'']\<rparr>"
      geometry_table OutNone "''x''" "''y''" None PNone
      "\<lparr>columns = [(''x'', NumCol [1]), (''geometry'', GeoCol [Point 1 3 None]),
                        (''y'', NumCol [3])], crs = None\<rparr>" "demo_world []"]
    demo_run_geometry demo_points_geometry o
  show ?thesis by simp
qed

end
